theory Spec2Isabelle
  imports Complex_Main "HOL-Library.Word" "HOL-Library.AList"
begin

section \<open>The placeholder embedding function\<close>

text \<open>
  \<^verbatim>\<open>SimpleEmbeddingFunction.generate\<close> (src/lib/chromadb-client.ts, lines 13-26, and the
  copies in the document viewers and the document manager):
  \<^verbatim>\<open>
    return texts.map(text => {
      const embedding = new Array(1536).fill(0);
      for (let i = 0; i < text.length; i++) {
        embedding[i % 1536] = (embedding[i % 1536] + text.charCodeAt(i)) % 1000;
      }
      return embedding;
    });
  \<close>
  A JavaScript string is a sequence of UTF-16 code units, and \<^verbatim>\<open>charCodeAt\<close> reads one
  of them as a number in 0..65535. Every intermediate value here is a small non-negative
  integer, which a double represents exactly, so the numbers are natural numbers.
  \<^verbatim>\<open>charCodeAt\<close> is only ever read under the loop guard \<^verbatim>\<open>i < text.length\<close>.
\<close>

type_synonym utf16 = "16 word list"

definition charCodeAt :: "utf16 \<Rightarrow> nat \<Rightarrow> nat" where
  "charCodeAt text i = unat (text ! i)"

function embedding_loop :: "utf16 \<Rightarrow> nat \<Rightarrow> nat list \<Rightarrow> nat list" where
  "embedding_loop text i embedding =
     (if i < length text
      then embedding_loop text (i + 1)
             (embedding[i mod 1536 := (embedding ! (i mod 1536) + charCodeAt text i) mod 1000])
      else embedding)"
  by pat_completeness auto
termination
  by (relation "measure (\<lambda>(text, i, embedding). length text - i)") auto

declare embedding_loop.simps [simp del]

definition embed :: "utf16 \<Rightarrow> nat list" where
  "embed text = embedding_loop text 0 (replicate 1536 0)"

definition generate :: "utf16 list \<Rightarrow> nat list list" where
  "generate texts = map embed texts"

section \<open>JavaScript values\<close>

text \<open>
  A JavaScript number is a double: \<open>NaN\<close> is kept apart because it is the one number
  besides zero that is falsy; the infinities are truthy and play no role below.
  \<open>jsval\<close> are the values a metadata mapping (\<^verbatim>\<open>Record<string, any>\<close>) can hold once it has
  been read from a JSON response or from \<^verbatim>\<open>JSON.parse\<close>, and \<^verbatim>\<open>undefined\<close>. An object is the
  list of its own enumerable properties in enumeration order.
\<close>

datatype jsnum = NaN | Fin real

datatype jsval =
    JUndefined
  | JNull
  | JBool bool
  | JNum jsnum
  | JStr string
  | JArr "jsval list"
  | JObj "(string \<times> jsval) list"

type_synonym metadata = "(string \<times> jsval) list"

text \<open>The \<^verbatim>\<open>typeof\<close> operator: \<^verbatim>\<open>null\<close> and arrays are \<^verbatim>\<open>"object"\<close>.\<close>

fun typeof :: "jsval \<Rightarrow> string" where
  "typeof JUndefined = ''undefined''"
| "typeof JNull = ''object''"
| "typeof (JBool b) = ''boolean''"
| "typeof (JNum n) = ''number''"
| "typeof (JStr s) = ''string''"
| "typeof (JArr xs) = ''object''"
| "typeof (JObj kvs) = ''object''"

fun isArray :: "jsval \<Rightarrow> bool" where
  "isArray (JArr xs) = True"
| "isArray v = False"

text \<open>
  Reading index \<open>i\<close> of an array: out of range JavaScript gives \<^verbatim>\<open>undefined\<close> and does not
  throw. In an array whose entries may be \<^verbatim>\<open>null\<close>, \<^verbatim>\<open>null\<close> and \<^verbatim>\<open>undefined\<close> are both
  \<open>None\<close>: the code only ever tests such an entry for truthiness.
\<close>

definition js_at :: "'a list \<Rightarrow> nat \<Rightarrow> 'a option" where
  "js_at xs i = (if i < length xs then Some (xs ! i) else None)"

definition js_at_opt :: "'a option list \<Rightarrow> nat \<Rightarrow> 'a option" where
  "js_at_opt xs i = (if i < length xs then xs ! i else None)"

text \<open>\<^verbatim>\<open>x || ''\<close> on a string that may be missing: the empty string is the one falsy string.\<close>

definition or_empty :: "string option \<Rightarrow> string" where
  "or_empty x = (case x of None \<Rightarrow> [] | Some s \<Rightarrow> (if s = [] then [] else s))"

text \<open>\<^verbatim>\<open>x || undefined\<close> on an object that may be missing: every object is truthy.\<close>

definition or_undefined :: "metadata option \<Rightarrow> metadata option" where
  "or_undefined x = (case x of None \<Rightarrow> None | Some obj \<Rightarrow> Some obj)"

text \<open>\<^verbatim>\<open>x || 0\<close> on a number that may be missing: zero and \<open>NaN\<close> are the falsy numbers.\<close>

definition or_zero :: "jsnum option \<Rightarrow> jsnum" where
  "or_zero x = (case x of None \<Rightarrow> Fin 0 | Some NaN \<Rightarrow> Fin 0
                | Some (Fin r) \<Rightarrow> (if r = 0 then Fin 0 else Fin r))"

text \<open>Decimal rendering of a non-negative integer inside a template string.\<close>

definition digit :: "nat \<Rightarrow> char" where
  "digit d = ''0123456789'' ! d"

fun show_nat :: "nat \<Rightarrow> string" where
  "show_nat n = (if n < 10 then [digit n] else show_nat (n div 10) @ [digit (n mod 10)])"

declare show_nat.simps [simp del]

text \<open>
  What a \<^verbatim>\<open>catch (error)\<close> block receives: an \<^verbatim>\<open>Error\<close> object with its message, or some
  other thrown value. The service itself only ever throws \<^verbatim>\<open>new Error(message)\<close>.
\<close>

datatype thrown = ErrorObj string | NonError

datatype error = Error string

text \<open>\<^verbatim>\<open>error instanceof Error ? error.message : 'Unknown error'\<close>\<close>

definition message_of :: "thrown \<Rightarrow> string" where
  "message_of e = (case e of ErrorObj m \<Rightarrow> m | NonError \<Rightarrow> ''Unknown error'')"

subsection \<open>Assigning a property of a plain object\<close>

text \<open>
  \<^verbatim>\<open>obj[key] = value\<close> on an object that started as \<^verbatim>\<open>{}\<close> and has only been assigned to. The
  model of the object is the list of its own enumerable properties in the order
  \<^verbatim>\<open>Object.keys\<close> and \<^verbatim>\<open>Object.entries\<close> enumerate them: first the keys that are array indices (the
  canonical decimal rendering of an integer from 0 to 4294967294), in ascending numeric
  order, then the other keys in the order of their first assignment. Assigning an
  existing key replaces its value where it stands. The key \<^verbatim>\<open>__proto__\<close> is the accessor
  inherited from \<^verbatim>\<open>Object.prototype\<close>: assigning it creates no own property (an object value
  becomes the prototype, any other value is ignored), so the list is unchanged.
\<close>

definition digit_value :: "char \<Rightarrow> nat" where
  "digit_value c = length (takeWhile (\<lambda>d. d \<noteq> c) ''0123456789'')"

definition read_nat :: "string \<Rightarrow> nat" where
  "read_nat s = foldl (\<lambda>a c. 10 * a + digit_value c) 0 s"

definition array_index :: "string \<Rightarrow> nat option" where
  "array_index k =
     (if k \<noteq> [] \<and> list_all (\<lambda>c. c \<in> set ''0123456789'') k
         \<and> (hd k \<noteq> CHR ''0'' \<or> k = ''0'') \<and> read_nat k < 4294967295
      then Some (read_nat k) else None)"

fun insert_index :: "nat \<Rightarrow> string \<times> jsval \<Rightarrow> metadata \<Rightarrow> metadata" where
  "insert_index i kv [] = [kv]"
| "insert_index i kv (p # ps) =
     (case array_index (fst p) of
        None \<Rightarrow> kv # p # ps
      | Some j \<Rightarrow> (if j < i then p # insert_index i kv ps else kv # p # ps))"

definition set_property :: "string \<Rightarrow> jsval \<Rightarrow> metadata \<Rightarrow> metadata" where
  "set_property k v obj =
     (if k = ''__proto__'' then obj
      else if k \<in> fst ` set obj then AList.update k v obj
      else (case array_index k of
              None \<Rightarrow> obj @ [(k, v)]
            | Some i \<Rightarrow> insert_index i (k, v) obj))"

section \<open>The data model\<close>

type_synonym timestamp = nat

record ChromaConnection =
  conn_id :: string
  conn_name :: string
  conn_host :: string
  conn_port :: int
  connected :: bool
  conn_createdAt :: timestamp

text \<open>\<^verbatim>\<open>Omit<ChromaConnection, 'id' | 'connected' | 'createdAt'>\<close>, the argument of connect.\<close>

record ConnectionInput =
  in_name :: string
  in_host :: string
  in_port :: int

record Collection =
  col_id :: string
  col_name :: string
  col_count :: nat
  col_metadata :: "metadata option"
  col_createdAt :: timestamp

record Document =
  doc_id :: string
  doc_content :: string
  doc_metadata :: "metadata option"
  doc_embedding :: "jsnum list option"

text \<open>\<^verbatim>\<open>Omit<Document, 'id'>\<close>, the argument of addDocument.\<close>

record NewDocument =
  new_content :: string
  new_metadata :: "metadata option"
  new_embedding :: "jsnum list option"

record QueryResult =
  qr_id :: string
  qr_content :: string
  qr_metadata :: "metadata option"
  qr_distance :: jsnum

text \<open>
  The objects getCollectionSchema pushes on its \<^verbatim>\<open>fields: any[]\<close>:
  \<^verbatim>\<open>{ name: key, type: typeof value, nullable: value === null, sample: value }\<close>.
\<close>

record SchemaField =
  field_name :: string
  field_type :: string
  nullable :: bool
  sample :: jsval

record CollectionSchema =
  schema_name :: string
  vectorDimension :: nat
  distanceFunction :: string
  schema_fields :: "SchemaField list"

record QueryRequest =
  queryText :: "string option"
  queryVector :: "jsnum list option"
  nResults :: "nat option"
  where_filter :: "metadata option"
  whereDocument :: "metadata option"
  req_include :: "string list option"

section \<open>The remote service\<close>

text \<open>
  The vector database is reached through the \<^verbatim>\<open>chromadb\<close> client library, which is not part
  of the repository. It is a parameter of the model: a record of operations over a state
  \<open>'w\<close> of the outside world, each of which either throws or returns.
\<close>

record ChromaClient =
  client_host :: string
  client_port :: int
  client_ssl :: bool

text \<open>The collection object that listCollections and getCollection hand out.\<close>

record RemoteCollection =
  rc_name :: string
  rc_metadata :: "metadata option"

text \<open>The argument of \<^verbatim>\<open>collection.get\<close>; a key that is absent or \<^verbatim>\<open>undefined\<close> is \<open>None\<close>.\<close>

record GetArgs =
  get_ids :: "string list option"
  get_where :: "metadata option"
  get_whereDocument :: "metadata option"
  get_limit :: "int option"
  get_offset :: "int option"

text \<open>The flat response of \<^verbatim>\<open>collection.get\<close>: one entry per field per document.\<close>

record GetResult =
  ids :: "string list option"
  documents :: "string option list option"
  metadatas :: "metadata option list option"

record QueryArgs =
  query_nResults :: nat
  query_include :: "string list"
  query_queryTexts :: "string list option"
  query_queryEmbeddings :: "jsnum list list option"
  query_where :: "metadata option"
  query_whereDocument :: "metadata option"

text \<open>The nested response of \<^verbatim>\<open>collection.query\<close>: one outer entry per query text.\<close>

record QueryResponse =
  q_ids :: "string list list option"
  q_documents :: "string option list list option"
  q_metadatas :: "metadata option list list option"
  q_distances :: "jsnum option list list option"

text \<open>The argument of \<^verbatim>\<open>collection.add\<close> and \<^verbatim>\<open>collection.update\<close>.\<close>

record WriteArgs =
  write_ids :: "string list"
  write_documents :: "string list"
  write_metadatas :: "metadata list"

record 'w remote =
  heartbeat :: "ChromaClient \<Rightarrow> 'w \<Rightarrow> (thrown + nat) \<times> 'w"
  listCollections :: "ChromaClient \<Rightarrow> 'w \<Rightarrow> (thrown + RemoteCollection list) \<times> 'w"
  getCollection :: "ChromaClient \<Rightarrow> string \<Rightarrow> 'w \<Rightarrow> (thrown + RemoteCollection) \<times> 'w"
  count :: "RemoteCollection \<Rightarrow> 'w \<Rightarrow> (thrown + nat) \<times> 'w"
  get :: "RemoteCollection \<Rightarrow> GetArgs \<Rightarrow> 'w \<Rightarrow> (thrown + GetResult) \<times> 'w"
  query :: "RemoteCollection \<Rightarrow> QueryArgs \<Rightarrow> 'w \<Rightarrow> (thrown + QueryResponse) \<times> 'w"
  add :: "RemoteCollection \<Rightarrow> WriteArgs \<Rightarrow> 'w \<Rightarrow> (thrown + unit) \<times> 'w"
  update :: "RemoteCollection \<Rightarrow> WriteArgs \<Rightarrow> 'w \<Rightarrow> (thrown + unit) \<times> 'w"
  delete :: "RemoteCollection \<Rightarrow> string list \<Rightarrow> 'w \<Rightarrow> (thrown + unit) \<times> 'w"

text \<open>Every remote call that is attempted is recorded, in order.\<close>

datatype rcall =
    Heartbeat ChromaClient
  | ListCollections ChromaClient
  | GetCollection ChromaClient string
  | Count RemoteCollection
  | Get RemoteCollection GetArgs
  | Query RemoteCollection QueryArgs
  | Add RemoteCollection WriteArgs
  | Update RemoteCollection WriteArgs
  | Delete RemoteCollection "string list"

record 'w net =
  world :: 'w
  calls :: "rcall list"

definition invoke :: "('w \<Rightarrow> (thrown + 'a) \<times> 'w) \<Rightarrow> rcall \<Rightarrow> 'w net \<Rightarrow> (thrown + 'a) \<times> 'w net" where
  "invoke f c n = (case f (world n) of (r, w') \<Rightarrow> (r, \<lparr>world = w', calls = calls n @ [c]\<rparr>))"

section \<open>ChromaDBService (src/lib/chromadb-client.ts)\<close>

text \<open>
  The service object has two private fields, both \<^verbatim>\<open>null\<close> at first. Its methods are
  modelled one by one, in the order of the source. A method that throws returns \<open>Inl\<close> of
  the error; every method also returns the record of the remote calls it attempted.
  \<open>clock k\<close> is the \<open>k\<close>-th reading of the clock (\<^verbatim>\<open>Date.now()\<close>, \<^verbatim>\<open>new Date()\<close>) during the
  call. The \<^verbatim>\<open>embeddingFunction\<close> that is handed to \<^verbatim>\<open>getCollection\<close> only parameterises the
  client library and is not part of the recorded call; \<^verbatim>\<open>console.log\<close> output is left out.
\<close>

record service =
  client :: "ChromaClient option"
  connection :: "ChromaConnection option"

definition new_service :: service where
  "new_service = \<lparr>client = None, connection = None\<rparr>"

definition connect ::
  "'w remote \<Rightarrow> (nat \<Rightarrow> timestamp) \<Rightarrow> ConnectionInput \<Rightarrow> service \<Rightarrow> 'w net
     \<Rightarrow> (error + ChromaConnection) \<times> service \<times> 'w net" where
  "connect R clock input svc n =
     (let cl = \<lparr>client_host = in_host input, client_port = in_port input, client_ssl = False\<rparr>;
          svc1 = svc\<lparr>client := Some cl\<rparr>
      in case invoke (heartbeat R cl) (Heartbeat cl) n of
           (Inl e, n1) \<Rightarrow>
             (Inl (Error (''Failed to connect to ChromaDB: '' @ message_of e)), svc1, n1)
         | (Inr hb, n1) \<Rightarrow>
             (let conn = \<lparr>conn_id = ''conn_'' @ show_nat (clock 0),
                          conn_name = in_name input,
                          conn_host = in_host input,
                          conn_port = in_port input,
                          connected = True,
                          conn_createdAt = clock 1\<rparr>
              in (Inr conn, svc1\<lparr>connection := Some conn\<rparr>, n1)))"

definition disconnect :: "service \<Rightarrow> service" where
  "disconnect svc = svc\<lparr>client := None, connection := None\<rparr>"

definition isConnected :: "service \<Rightarrow> bool" where
  "isConnected svc =
     (client svc \<noteq> None \<and> (case connection svc of None \<Rightarrow> False | Some c \<Rightarrow> connected c = True))"

definition getConnection :: "service \<Rightarrow> ChromaConnection option" where
  "getConnection svc = connection svc"

definition getClient :: "service \<Rightarrow> ChromaClient option" where
  "getClient svc = client svc"

definition not_connected :: error where
  "not_connected = Error ''Not connected to ChromaDB''"

definition getCollections ::
  "'w remote \<Rightarrow> (nat \<Rightarrow> timestamp) \<Rightarrow> service \<Rightarrow> 'w net \<Rightarrow> (error + Collection list) \<times> 'w net" where
  "getCollections R clock svc n =
     (case client svc of
        None \<Rightarrow> (Inl not_connected, n)
      | Some cl \<Rightarrow>
          (case invoke (listCollections R cl) (ListCollections cl) n of
             (Inl e, n1) \<Rightarrow> (Inl (Error (''Failed to fetch collections: '' @ message_of e)), n1)
           | (Inr collections, n1) \<Rightarrow>
               (Inr (map (\<lambda>(index, collection).
                            \<lparr>col_id = ''collection_'' @ show_nat index,
                             col_name = rc_name collection,
                             col_count = 0,
                             col_metadata = rc_metadata collection,
                             col_createdAt = clock index\<rparr>)
                         (enumerate 0 collections)), n1)))"

definition getCollectionDetails ::
  "'w remote \<Rightarrow> (nat \<Rightarrow> timestamp) \<Rightarrow> string \<Rightarrow> service \<Rightarrow> 'w net \<Rightarrow> (error + Collection) \<times> 'w net" where
  "getCollectionDetails R clock collectionName svc n =
     (case client svc of
        None \<Rightarrow> (Inl not_connected, n)
      | Some cl \<Rightarrow>
          (case invoke (getCollection R cl collectionName) (GetCollection cl collectionName) n of
             (Inl e, n1) \<Rightarrow> (Inl (Error (''Failed to get collection details: '' @ message_of e)), n1)
           | (Inr collection, n1) \<Rightarrow>
               (case invoke (count R collection) (Count collection) n1 of
                  (Inl e, n2) \<Rightarrow>
                    (Inl (Error (''Failed to get collection details: '' @ message_of e)), n2)
                | (Inr cnt, n2) \<Rightarrow>
                    (Inr \<lparr>col_id = ''collection_'' @ collectionName,
                          col_name = collectionName,
                          col_count = cnt,
                          col_metadata = or_undefined (rc_metadata collection),
                          col_createdAt = clock 0\<rparr>, n2))))"

text \<open>
  The schema fields inferred from the sampled page:
  \<^verbatim>\<open>
      if (results.metadatas && results.metadatas.length > 0) {
        const metadata = results.metadatas[0];
        if (metadata) {
          Object.entries(metadata).forEach(([key, value]) => {
            fields.push({ name: key, type: typeof value, nullable: value === null, sample: value });
          });
        }
      }
  \<close>
\<close>

definition infer_fields :: "GetResult \<Rightarrow> SchemaField list" where
  "infer_fields results =
     (case metadatas results of
        None \<Rightarrow> []
      | Some ms \<Rightarrow>
          (if length ms > 0
           then (case ms ! 0 of
                   None \<Rightarrow> []
                 | Some metadata \<Rightarrow>
                     map (\<lambda>(key, value).
                            \<lparr>field_name = key, field_type = typeof value,
                             nullable = (value = JNull), sample = value\<rparr>) metadata)
           else []))"

definition sample_args :: GetArgs where
  "sample_args = \<lparr>get_ids = None, get_where = None, get_whereDocument = None,
                   get_limit = Some 1, get_offset = None\<rparr>"

definition getCollectionSchema ::
  "'w remote \<Rightarrow> string \<Rightarrow> service \<Rightarrow> 'w net \<Rightarrow> (error + CollectionSchema) \<times> 'w net" where
  "getCollectionSchema R collectionName svc n =
     (case client svc of
        None \<Rightarrow> (Inl not_connected, n)
      | Some cl \<Rightarrow>
          (case invoke (getCollection R cl collectionName) (GetCollection cl collectionName) n of
             (Inl e, n1) \<Rightarrow> (Inl (Error (''Failed to get collection schema: '' @ message_of e)), n1)
           | (Inr collection, n1) \<Rightarrow>
               (case invoke (get R collection sample_args) (Get collection sample_args) n1 of
                  (Inl e, n2) \<Rightarrow>
                    (Inl (Error (''Failed to get collection schema: '' @ message_of e)), n2)
                | (Inr results, n2) \<Rightarrow>
                    (Inr \<lparr>schema_name = collectionName,
                          vectorDimension = 1536,
                          distanceFunction = ''cosine'',
                          schema_fields = infer_fields results\<rparr>, n2))))"

text \<open>\<^verbatim>\<open>xs?.[i]\<close> and \<^verbatim>\<open>xs?.[0]?.[i]\<close> on a response field that may be missing.\<close>

definition flat_at :: "'a option list option \<Rightarrow> nat \<Rightarrow> 'a option" where
  "flat_at xs i = (case xs of None \<Rightarrow> None | Some row \<Rightarrow> js_at_opt row i)"

definition nested_at :: "'a option list list option \<Rightarrow> nat \<Rightarrow> 'a option" where
  "nested_at xs i =
     (case xs of
        None \<Rightarrow> None
      | Some rows \<Rightarrow> (case js_at rows 0 of None \<Rightarrow> None | Some row \<Rightarrow> js_at_opt row i))"

definition query_options :: "QueryRequest \<Rightarrow> QueryArgs" where
  "query_options queryRequest =
     \<lparr>query_nResults = (case nResults queryRequest of
                           None \<Rightarrow> 10
                         | Some k \<Rightarrow> (if k = 0 then 10 else k)),
      query_include = (case req_include queryRequest of
                         None \<Rightarrow> [''documents'', ''metadatas'', ''distances'']
                       | Some inc \<Rightarrow> inc),
      query_queryTexts = (case queryText queryRequest of
                            None \<Rightarrow> None
                          | Some t \<Rightarrow> (if t = [] then None else Some [t])),
      query_queryEmbeddings = (case queryVector queryRequest of
                                 None \<Rightarrow> None
                               | Some v \<Rightarrow> Some [v]),
      query_where = where_filter queryRequest,
      query_whereDocument = whereDocument queryRequest\<rparr>"

text \<open>
  \<^verbatim>\<open>
      if (results.ids && results.ids[0]) {
        for (let i = 0; i < results.ids[0].length; i++) {
          queryResults.push({
            id: results.ids[0][i],
            content: results.documents?.[0]?.[i] || '',
            metadata: results.metadatas?.[0]?.[i] as Record<string, any> || undefined,
            distance: results.distances?.[0]?.[i] || 0
          });
        }
      }
  \<close>
\<close>

definition query_results :: "QueryResponse \<Rightarrow> QueryResult list" where
  "query_results results =
     (case q_ids results of
        None \<Rightarrow> []
      | Some idss \<Rightarrow>
          (case js_at idss 0 of
             None \<Rightarrow> []
           | Some ids0 \<Rightarrow>
               map (\<lambda>i. \<lparr>qr_id = ids0 ! i,
                          qr_content = or_empty (nested_at (q_documents results) i),
                          qr_metadata = or_undefined (nested_at (q_metadatas results) i),
                          qr_distance = or_zero (nested_at (q_distances results) i)\<rparr>)
                   [0..<length ids0]))"

definition queryCollection ::
  "'w remote \<Rightarrow> string \<Rightarrow> QueryRequest \<Rightarrow> service \<Rightarrow> 'w net \<Rightarrow> (error + QueryResult list) \<times> 'w net" where
  "queryCollection R collectionName queryRequest svc n =
     (case client svc of
        None \<Rightarrow> (Inl not_connected, n)
      | Some cl \<Rightarrow>
          (case invoke (getCollection R cl collectionName) (GetCollection cl collectionName) n of
             (Inl e, n1) \<Rightarrow> (Inl (Error (''Failed to query collection: '' @ message_of e)), n1)
           | (Inr collection, n1) \<Rightarrow>
               (let queryOptions = query_options queryRequest
                in case invoke (query R collection queryOptions) (Query collection queryOptions) n1 of
                     (Inl e, n2) \<Rightarrow>
                       (Inl (Error (''Failed to query collection: '' @ message_of e)), n2)
                   | (Inr results, n2) \<Rightarrow> (Inr (query_results results), n2))))"

text \<open>\<^verbatim>\<open>s.substr(start, length)\<close> for non-negative arguments.\<close>

definition substr :: "nat \<Rightarrow> nat \<Rightarrow> string \<Rightarrow> string" where
  "substr start len s = take len (drop start s)"

text \<open>
  \<^verbatim>\<open>`doc_${Date.now()}_${Math.random().toString(36).substr(2, 9)}`\<close>, where \<open>random36\<close> is
  what \<^verbatim>\<open>Math.random().toString(36)\<close> returned.
\<close>

definition new_document_id :: "timestamp \<Rightarrow> string \<Rightarrow> string" where
  "new_document_id now random36 = ''doc_'' @ show_nat now @ ''_'' @ substr 2 9 random36"

text \<open>\<^verbatim>\<open>document.metadata || {}\<close>\<close>

definition or_empty_object :: "metadata option \<Rightarrow> metadata" where
  "or_empty_object m = (case m of None \<Rightarrow> [] | Some obj \<Rightarrow> obj)"

definition addDocument ::
  "'w remote \<Rightarrow> (nat \<Rightarrow> timestamp) \<Rightarrow> string \<Rightarrow> string \<Rightarrow> NewDocument \<Rightarrow> service \<Rightarrow> 'w net
     \<Rightarrow> (error + string) \<times> 'w net" where
  "addDocument R clock random36 collectionName document svc n =
     (case client svc of
        None \<Rightarrow> (Inl not_connected, n)
      | Some cl \<Rightarrow>
          (case invoke (getCollection R cl collectionName) (GetCollection cl collectionName) n of
             (Inl e, n1) \<Rightarrow> (Inl (Error (''Failed to add document: '' @ message_of e)), n1)
           | (Inr collection, n1) \<Rightarrow>
               (let new_id = new_document_id (clock 0) random36;
                    args = \<lparr>write_ids = [new_id],
                            write_documents = [new_content document],
                            write_metadatas = [or_empty_object (new_metadata document)]\<rparr>
                in case invoke (add R collection args) (Add collection args) n1 of
                     (Inl e, n2) \<Rightarrow> (Inl (Error (''Failed to add document: '' @ message_of e)), n2)
                   | (Inr u, n2) \<Rightarrow> (Inr new_id, n2))))"

definition updateDocument ::
  "'w remote \<Rightarrow> string \<Rightarrow> Document \<Rightarrow> service \<Rightarrow> 'w net \<Rightarrow> (error + unit) \<times> 'w net" where
  "updateDocument R collectionName document svc n =
     (case client svc of
        None \<Rightarrow> (Inl not_connected, n)
      | Some cl \<Rightarrow>
          (case invoke (getCollection R cl collectionName) (GetCollection cl collectionName) n of
             (Inl e, n1) \<Rightarrow> (Inl (Error (''Failed to update document: '' @ message_of e)), n1)
           | (Inr collection, n1) \<Rightarrow>
               (let args = \<lparr>write_ids = [doc_id document],
                            write_documents = [doc_content document],
                            write_metadatas = [or_empty_object (doc_metadata document)]\<rparr>
                in case invoke (update R collection args) (Update collection args) n1 of
                     (Inl e, n2) \<Rightarrow> (Inl (Error (''Failed to update document: '' @ message_of e)), n2)
                   | (Inr u, n2) \<Rightarrow> (Inr (), n2))))"

definition deleteDocument ::
  "'w remote \<Rightarrow> string \<Rightarrow> string \<Rightarrow> service \<Rightarrow> 'w net \<Rightarrow> (error + unit) \<times> 'w net" where
  "deleteDocument R collectionName documentId svc n =
     (case client svc of
        None \<Rightarrow> (Inl not_connected, n)
      | Some cl \<Rightarrow>
          (case invoke (getCollection R cl collectionName) (GetCollection cl collectionName) n of
             (Inl e, n1) \<Rightarrow> (Inl (Error (''Failed to delete document: '' @ message_of e)), n1)
           | (Inr collection, n1) \<Rightarrow>
               (case invoke (delete R collection [documentId]) (Delete collection [documentId]) n1 of
                  (Inl e, n2) \<Rightarrow> (Inl (Error (''Failed to delete document: '' @ message_of e)), n2)
                | (Inr u, n2) \<Rightarrow> (Inr (), n2))))"

text \<open>The private helper of the class. No method calls it.\<close>

definition inferFieldType :: "jsval \<Rightarrow> string" where
  "inferFieldType v =
     (if isArray v then ''array''
      else if typeof v = ''object'' \<and> v \<noteq> JNull then ''object''
      else if typeof v = ''string'' then ''string''
      else if typeof v = ''number'' then ''number''
      else if typeof v = ''boolean'' then ''boolean''
      else ''string'')"

section \<open>The document viewers\<close>

text \<open>
  The React state of a \<^verbatim>\<open>DocumentViewer\<close> that \<^verbatim>\<open>fetchDocuments\<close> writes. Both viewers share
  it: the one the application mounts (\<^verbatim>\<open>document-viewer-enhanced\<close>, with the five search
  tabs) and the earlier one in src/components/documents/document-viewer.tsx.
\<close>

record viewer =
  shown_documents :: "Document list"
  loading :: bool
  shown_error :: "string option"
  totalDocuments :: nat

record MetadataFilter =
  filter_field :: string
  filter_operator :: string
  filter_value :: string
  filter_type :: string

definition documentsPerPage :: int where
  "documentsPerPage = 20"

text \<open>
  The loop that follows every \<^verbatim>\<open>collection.get\<close> (text, metadata, id and plain listing; the
  four copies in the source are the same text):
  \<^verbatim>\<open>
        const docs: Document[] = [];
        if (results.ids && results.ids.length > 0) {
          for (let i = 0; i < results.ids.length; i++) {
            docs.push({
              id: results.ids[i],
              content: results.documents?.[i] || '',
              metadata: results.metadatas?.[i] as Record<string, any> || undefined,
            });
          }
        }
  \<close>
  Every property read is either behind the guard on \<^verbatim>\<open>results.ids\<close> or optional-chained, so
  no branch of it throws.
\<close>

definition flat_documents :: "GetResult \<Rightarrow> Document list" where
  "flat_documents results =
     (case ids results of
        None \<Rightarrow> []
      | Some ids0 \<Rightarrow>
          (if length ids0 > 0
           then map (\<lambda>i. \<lparr>doc_id = ids0 ! i,
                           doc_content = or_empty (flat_at (documents results) i),
                           doc_metadata = or_undefined (flat_at (metadatas results) i),
                           doc_embedding = None\<rparr>)
                    [0..<length ids0]
           else []))"

text \<open>
  The loop that follows \<^verbatim>\<open>collection.query\<close> in the application's viewer:
  \<^verbatim>\<open>
        if (results.ids && results.ids[0]) {
          for (let i = 0; i < results.ids[0].length; i++) {
            docs.push({
              id: results.ids[0][i],
              content: results.documents?.[0]?.[i] || '',
              metadata: results.metadatas?.[0]?.[i] as Record<string, any> || undefined,
            });
          }
        }
  \<close>
\<close>

definition nested_documents :: "QueryResponse \<Rightarrow> Document list" where
  "nested_documents results =
     (case q_ids results of
        None \<Rightarrow> []
      | Some idss \<Rightarrow>
          (case js_at idss 0 of
             None \<Rightarrow> []
           | Some ids0 \<Rightarrow>
               map (\<lambda>i. \<lparr>doc_id = ids0 ! i,
                          doc_content = or_empty (nested_at (q_documents results) i),
                          doc_metadata = or_undefined (nested_at (q_metadatas results) i),
                          doc_embedding = None\<rparr>)
                   [0..<length ids0]))"

text \<open>
  The body of \<^verbatim>\<open>filters.forEach\<close> in the metadata branch, on \<^verbatim>\<open>const whereClause: any = {}\<close>:
  \<^verbatim>\<open>
          if (filter.field && filter.value) {
            switch (filter.operator) {
              case 'equals':
                whereClause[filter.field] = filter.value;
                break;
              case 'contains':
                whereClause[filter.field] = { $contains: filter.value };
                break;
              case 'greater':
                whereClause[filter.field] = { $gt: filter.value };
                break;
              case 'less':
                whereClause[filter.field] = { $lt: filter.value };
                break;
            }
          }
  \<close>
\<close>

definition add_clause :: "metadata \<Rightarrow> MetadataFilter \<Rightarrow> metadata" where
  "add_clause whereClause f =
     (if filter_field f \<noteq> [] \<and> filter_value f \<noteq> []
      then (if filter_operator f = ''equals''
            then set_property (filter_field f) (JStr (filter_value f)) whereClause
            else if filter_operator f = ''contains''
            then set_property (filter_field f) (JObj [(''$contains'', JStr (filter_value f))]) whereClause
            else if filter_operator f = ''greater''
            then set_property (filter_field f) (JObj [(''$gt'', JStr (filter_value f))]) whereClause
            else if filter_operator f = ''less''
            then set_property (filter_field f) (JObj [(''$lt'', JStr (filter_value f))]) whereClause
            else whereClause)
      else whereClause)"

definition build_where :: "MetadataFilter list \<Rightarrow> metadata" where
  "build_where filters = foldl add_clause [] filters"

text \<open>\<^verbatim>\<open>Object.keys(whereClause).length > 0 ? whereClause : undefined\<close>\<close>

definition where_or_undefined :: "metadata \<Rightarrow> metadata option" where
  "where_or_undefined whereClause = (if length (map fst whereClause) > 0 then Some whereClause else None)"

definition semantic_args :: "string \<Rightarrow> int \<Rightarrow> QueryArgs" where
  "semantic_args search limit =
     \<lparr>query_nResults = nat limit,
      query_include = [''documents'', ''metadatas'', ''distances''],
      query_queryTexts = Some [search],
      query_queryEmbeddings = None,
      query_where = None,
      query_whereDocument = None\<rparr>"

definition text_args :: "string \<Rightarrow> int \<Rightarrow> int \<Rightarrow> GetArgs" where
  "text_args search limit offset =
     \<lparr>get_ids = None, get_where = None,
      get_whereDocument = Some [(''$contains'', JStr search)],
      get_limit = Some limit, get_offset = Some offset\<rparr>"

definition metadata_args :: "MetadataFilter list \<Rightarrow> int \<Rightarrow> int \<Rightarrow> GetArgs" where
  "metadata_args filters limit offset =
     \<lparr>get_ids = None, get_where = where_or_undefined (build_where filters),
      get_whereDocument = None,
      get_limit = Some limit, get_offset = Some offset\<rparr>"

definition id_args :: "string \<Rightarrow> int \<Rightarrow> GetArgs" where
  "id_args search limit =
     \<lparr>get_ids = Some [search], get_where = None, get_whereDocument = None,
      get_limit = Some limit, get_offset = None\<rparr>"

definition listing_args :: "int \<Rightarrow> int \<Rightarrow> GetArgs" where
  "listing_args limit offset =
     \<lparr>get_ids = None, get_where = None, get_whereDocument = None,
      get_limit = Some limit, get_offset = Some offset\<rparr>"

text \<open>
  The request each branch of the \<^verbatim>\<open>if (search && type === ...)\<close> chain sends, in the order
  of the source; \<open>Inl\<close> is a \<^verbatim>\<open>query\<close>, \<open>Inr\<close> a \<^verbatim>\<open>get\<close>. A search type with no branch of its
  own (\<^verbatim>\<open>'regex'\<close>) and an empty search term fall through to the plain listing.
\<close>

definition page_request :: "int \<Rightarrow> string \<Rightarrow> string \<Rightarrow> MetadataFilter list \<Rightarrow> QueryArgs + GetArgs" where
  "page_request page search type filters =
     (let limit = documentsPerPage;
          offset = (page - 1) * documentsPerPage
      in if search \<noteq> [] \<and> type = ''semantic'' then Inl (semantic_args search limit)
         else if search \<noteq> [] \<and> type = ''text'' then Inr (text_args search limit offset)
         else if search \<noteq> [] \<and> type = ''metadata'' then Inr (metadata_args filters limit offset)
         else if search \<noteq> [] \<and> type = ''id'' then Inr (id_args search limit)
         else Inr (listing_args limit offset))"

text \<open>The remote call of the chosen branch and the documents its loop builds.\<close>

definition fetch_page ::
  "'w remote \<Rightarrow> RemoteCollection \<Rightarrow> QueryArgs + GetArgs \<Rightarrow> 'w net \<Rightarrow> (thrown + Document list) \<times> 'w net" where
  "fetch_page R collection request n =
     (case request of
        Inl qargs \<Rightarrow>
          (case invoke (query R collection qargs) (Query collection qargs) n of
             (Inl e, n1) \<Rightarrow> (Inl e, n1)
           | (Inr results, n1) \<Rightarrow> (Inr (nested_documents results), n1))
      | Inr gargs \<Rightarrow>
          (case invoke (get R collection gargs) (Get collection gargs) n of
             (Inl e, n1) \<Rightarrow> (Inl e, n1)
           | (Inr results, n1) \<Rightarrow> (Inr (flat_documents results), n1)))"

text \<open>\<^verbatim>\<open>setError(err instanceof Error ? err.message : 'Failed to fetch documents')\<close>, then the
  \<^verbatim>\<open>finally\<close> block.\<close>

definition fetch_failed :: "viewer \<Rightarrow> thrown \<Rightarrow> viewer" where
  "fetch_failed v e =
     v\<lparr>shown_error := Some (case e of ErrorObj m \<Rightarrow> m | NonError \<Rightarrow> ''Failed to fetch documents''),
       loading := False\<rparr>"

text \<open>
  \<^verbatim>\<open>fetchDocuments\<close> of the viewer the application mounts. \<^verbatim>\<open>getClient()?.getCollection(...)\<close>
  is \<^verbatim>\<open>undefined\<close> without a client, and then \<^verbatim>\<open>'Collection not found'\<close> is thrown and caught.
\<close>

definition fetchDocuments ::
  "'w remote \<Rightarrow> string \<Rightarrow> int \<Rightarrow> string \<Rightarrow> string \<Rightarrow> MetadataFilter list \<Rightarrow> service
     \<Rightarrow> viewer \<Rightarrow> 'w net \<Rightarrow> viewer \<times> 'w net" where
  "fetchDocuments R collectionName page search type filters svc v n =
     (let v0 = v\<lparr>loading := True, shown_error := None\<rparr>
      in case getClient svc of
           None \<Rightarrow> (fetch_failed v0 (ErrorObj ''Collection not found''), n)
         | Some cl \<Rightarrow>
             (case invoke (getCollection R cl collectionName) (GetCollection cl collectionName) n of
                (Inl e, n1) \<Rightarrow> (fetch_failed v0 e, n1)
              | (Inr collection, n1) \<Rightarrow>
                  (case fetch_page R collection (page_request page search type filters) n1 of
                     (Inl e, n2) \<Rightarrow> (fetch_failed v0 e, n2)
                   | (Inr docs, n2) \<Rightarrow>
                       (let v1 = v0\<lparr>shown_documents := docs\<rparr>
                        in case invoke (count R collection) (Count collection) n2 of
                             (Inl e, n3) \<Rightarrow> (fetch_failed v1 e, n3)
                           | (Inr cnt, n3) \<Rightarrow>
                               (v1\<lparr>totalDocuments := cnt, loading := False\<rparr>, n3)))))"

text \<open>
  The loop of the earlier viewer's search branch:
  \<^verbatim>\<open>if (results.ids && results.ids.length > 0 && results.ids[0]) { ... }\<close> with the same body.
\<close>

definition nested_documents_basic :: "QueryResponse \<Rightarrow> Document list" where
  "nested_documents_basic results =
     (case q_ids results of
        None \<Rightarrow> []
      | Some idss \<Rightarrow>
          (if length idss > 0
           then (case js_at idss 0 of
                   None \<Rightarrow> []
                 | Some ids0 \<Rightarrow>
                     map (\<lambda>i. \<lparr>doc_id = ids0 ! i,
                                doc_content = or_empty (nested_at (q_documents results) i),
                                doc_metadata = or_undefined (nested_at (q_metadatas results) i),
                                doc_embedding = None\<rparr>)
                         [0..<length ids0])
           else []))"

text \<open>
  \<^verbatim>\<open>fetchDocuments\<close> of src/components/documents/document-viewer.tsx. With a search term it
  queries, shows the results, sets the total to their number and returns:
  \<^verbatim>\<open>
        setDocuments(docs);
        setTotalDocuments(docs.length);
        setLoading(false);
        return;
  \<close>
  Without one it lists a page and then asks for the count.
\<close>

definition fetchDocuments_basic ::
  "'w remote \<Rightarrow> string \<Rightarrow> int \<Rightarrow> string \<Rightarrow> service \<Rightarrow> viewer \<Rightarrow> 'w net \<Rightarrow> viewer \<times> 'w net" where
  "fetchDocuments_basic R collectionName page search svc v n =
     (let v0 = v\<lparr>loading := True, shown_error := None\<rparr>;
          limit = documentsPerPage;
          offset = (page - 1) * documentsPerPage
      in case getClient svc of
           None \<Rightarrow> (fetch_failed v0 (ErrorObj ''Collection not found''), n)
         | Some cl \<Rightarrow>
             (case invoke (getCollection R cl collectionName) (GetCollection cl collectionName) n of
                (Inl e, n1) \<Rightarrow> (fetch_failed v0 e, n1)
              | (Inr collection, n1) \<Rightarrow>
                  (if search \<noteq> []
                   then (case invoke (query R collection (semantic_args search limit))
                                     (Query collection (semantic_args search limit)) n1 of
                           (Inl e, n2) \<Rightarrow> (fetch_failed v0 e, n2)
                         | (Inr results, n2) \<Rightarrow>
                             (let docs = nested_documents_basic results
                              in (v0\<lparr>shown_documents := docs, totalDocuments := length docs,
                                      loading := False\<rparr>, n2)))
                   else (case invoke (get R collection (listing_args limit offset))
                                     (Get collection (listing_args limit offset)) n1 of
                           (Inl e, n2) \<Rightarrow> (fetch_failed v0 e, n2)
                         | (Inr results, n2) \<Rightarrow>
                             (let v1 = v0\<lparr>shown_documents := flat_documents results\<rparr>
                              in case invoke (count R collection) (Count collection) n2 of
                                   (Inl e, n3) \<Rightarrow> (fetch_failed v1 e, n3)
                                 | (Inr cnt, n3) \<Rightarrow>
                                     (v1\<lparr>totalDocuments := cnt, loading := False\<rparr>, n3))))))"

section \<open>Sample environments\<close>

text \<open>
  Two concrete remotes, used only to evaluate the model at concrete inputs. The first
  is a target that cannot be reached: every call throws. The second is a server with
  one collection, \<^verbatim>\<open>docs\<close>, whose rows (id, document, metadata) are the state of the world;
  \<^verbatim>\<open>get\<close> selects by id when ids are given and then applies offset and limit, \<^verbatim>\<open>query\<close>
  returns the first \<^verbatim>\<open>nResults\<close> rows as the nearest ones, and \<^verbatim>\<open>add\<close> stores the rows whose
  id is new and silently ignores a row whose id is already stored.
\<close>

definition unreachable :: "unit remote" where
  "unreachable =
     \<lparr>heartbeat = (\<lambda>cl w. (Inl (ErrorObj ''fetch failed''), w)),
      listCollections = (\<lambda>cl w. (Inl (ErrorObj ''fetch failed''), w)),
      getCollection = (\<lambda>cl name w. (Inl (ErrorObj ''fetch failed''), w)),
      count = (\<lambda>c w. (Inl (ErrorObj ''fetch failed''), w)),
      get = (\<lambda>c a w. (Inl (ErrorObj ''fetch failed''), w)),
      query = (\<lambda>c a w. (Inl (ErrorObj ''fetch failed''), w)),
      add = (\<lambda>c a w. (Inl (ErrorObj ''fetch failed''), w)),
      update = (\<lambda>c a w. (Inl (ErrorObj ''fetch failed''), w)),
      delete = (\<lambda>c a w. (Inl (ErrorObj ''fetch failed''), w))\<rparr>"

type_synonym row = "string \<times> string \<times> metadata"

definition docs_collection :: RemoteCollection where
  "docs_collection = \<lparr>rc_name = ''docs'', rc_metadata = None\<rparr>"

definition select_rows :: "GetArgs \<Rightarrow> row list \<Rightarrow> row list" where
  "select_rows a w =
     (let chosen = (case get_ids a of None \<Rightarrow> w | Some wanted \<Rightarrow> filter (\<lambda>r. fst r \<in> set wanted) w);
          skipped = (case get_offset a of None \<Rightarrow> chosen | Some k \<Rightarrow> drop (nat k) chosen)
      in (case get_limit a of None \<Rightarrow> skipped | Some k \<Rightarrow> take (nat k) skipped))"

definition get_response :: "row list \<Rightarrow> GetResult" where
  "get_response rows =
     \<lparr>ids = Some (map fst rows),
      documents = Some (map (\<lambda>r. Some (fst (snd r))) rows),
      metadatas = Some (map (\<lambda>r. Some (snd (snd r))) rows)\<rparr>"

definition query_response :: "row list \<Rightarrow> QueryResponse" where
  "query_response rows =
     \<lparr>q_ids = Some [map fst rows],
      q_documents = Some [map (\<lambda>r. Some (fst (snd r))) rows],
      q_metadatas = Some [map (\<lambda>r. Some (snd (snd r))) rows],
      q_distances = Some [map (\<lambda>r. Some (Fin 1)) rows]\<rparr>"

definition memory_remote :: "row list remote" where
  "memory_remote =
     \<lparr>heartbeat = (\<lambda>cl w. (Inr 1, w)),
      listCollections = (\<lambda>cl w. (Inr [docs_collection], w)),
      getCollection = (\<lambda>cl name w.
         (if name = ''docs'' then Inr docs_collection else Inl (ErrorObj ''no such collection''), w)),
      count = (\<lambda>c w. (Inr (length w), w)),
      get = (\<lambda>c a w. (Inr (get_response (select_rows a w)), w)),
      query = (\<lambda>c a w. (Inr (query_response (take (query_nResults a) w)), w)),
      add = (\<lambda>c a w.
         (Inr (), w @ filter (\<lambda>r. fst r \<notin> fst ` set w)
                          (zip (write_ids a) (zip (write_documents a) (write_metadatas a))))),
      update = (\<lambda>c a w.
         (Inr (), map (\<lambda>r. case map_of (zip (write_ids a) (zip (write_documents a) (write_metadatas a)))
                                    (fst r) of
                           None \<Rightarrow> r
                         | Some changed \<Rightarrow> (fst r, changed)) w)),
      delete = (\<lambda>c removed w. (Inr (), filter (\<lambda>r. fst r \<notin> set removed) w))\<rparr>"

definition local_client :: ChromaClient where
  "local_client = \<lparr>client_host = ''localhost'', client_port = 8000, client_ssl = False\<rparr>"

definition local_input :: ConnectionInput where
  "local_input = \<lparr>in_name = ''Local ChromaDB'', in_host = ''localhost'', in_port = 8000\<rparr>"

definition local_service :: service where
  "local_service =
     \<lparr>client = Some local_client,
      connection = Some \<lparr>conn_id = ''conn_0'', conn_name = ''Local ChromaDB'',
                          conn_host = ''localhost'', conn_port = 8000,
                          connected = True, conn_createdAt = 0\<rparr>\<rparr>"

definition fresh_viewer :: viewer where
  "fresh_viewer = \<lparr>shown_documents = [], loading = True, shown_error = None, totalDocuments = 0\<rparr>"

definition quiet :: "'w \<Rightarrow> 'w net" where
  "quiet w = \<lparr>world = w, calls = []\<rparr>"

definition blank_filter :: MetadataFilter where
  "blank_filter = \<lparr>filter_field = '''', filter_operator = ''equals'', filter_value = ''x'',
                    filter_type = ''string''\<rparr>"

definition category_filter :: MetadataFilter where
  "category_filter = \<lparr>filter_field = ''category'', filter_operator = ''contains'',
                       filter_value = ''greet'', filter_type = ''string''\<rparr>"

definition proto_filter :: MetadataFilter where
  "proto_filter = \<lparr>filter_field = ''__proto__'', filter_operator = ''contains'',
                    filter_value = ''x'', filter_type = ''string''\<rparr>"

definition equals_filter :: "string \<Rightarrow> string \<Rightarrow> MetadataFilter" where
  "equals_filter k v = \<lparr>filter_field = k, filter_operator = ''equals'', filter_value = v,
                         filter_type = ''string''\<rparr>"

definition other_input :: ConnectionInput where
  "other_input = \<lparr>in_name = ''Staging'', in_host = ''10.0.0.7'', in_port = 8000\<rparr>"

definition greeting_row :: row where
  "greeting_row = (''doc_1'', ''hello world'', [(''category'', JStr ''greeting'')])"



text \<open>A collection of twenty-one documents, one more than a page.\<close>

definition many_rows :: "row list" where
  "many_rows = map (\<lambda>k. (''doc_'' @ show_nat k, ''hello'', [])) [0..<21]"

definition hello_document :: NewDocument where
  "hello_document = \<lparr>new_content = ''hello world'', new_metadata = None, new_embedding = None\<rparr>"

definition hello_args :: WriteArgs where
  "hello_args = \<lparr>write_ids = [''doc_1730_4fzyo82mv''], write_documents = [''hello world''],
                  write_metadatas = [[]]\<rparr>"

section \<open>A remote that keeps what is added\<close>

text \<open>
  What the round trip of a document through the remote needs of the remote, for the
  collection called \<open>name\<close>: \<open>rows\<close> reads off the state of the world the rows
  (id, document, metadata) the collection holds. The collection is found, and finding it
  changes no row; adding one row under an id that is not stored yet succeeds and stores
  the row as sent, after the others; and an unfiltered \<^verbatim>\<open>get\<close> answers with the stored rows
  that its ids, offset and limit select.
\<close>

definition keeps_rows :: "'w remote \<Rightarrow> string \<Rightarrow> ('w \<Rightarrow> row list) \<Rightarrow> bool" where
  "keeps_rows R name rows \<longleftrightarrow>
     (\<forall>cl w. \<exists>coll. fst (getCollection R cl name w) = Inr coll \<and> rc_name coll = name)
   \<and> (\<forall>cl w. rows (snd (getCollection R cl name w)) = rows w)
   \<and> (\<forall>coll i d m w. rc_name coll = name \<and> i \<notin> fst ` set (rows w) \<longrightarrow>
          fst (add R coll \<lparr>write_ids = [i], write_documents = [d], write_metadatas = [m]\<rparr> w)
            = Inr ()
        \<and> rows (snd (add R coll \<lparr>write_ids = [i], write_documents = [d],
                                  write_metadatas = [m]\<rparr> w))
            = rows w @ [(i, d, m)])
   \<and> (\<forall>coll a w. rc_name coll = name \<and> get_where a = None \<and> get_whereDocument a = None \<longrightarrow>
          fst (get R coll a w) = Inr (get_response (select_rows a (rows w))))"

section \<open>Operations without a client\<close>

text \<open>
  C1. In every state of the service in which the client handle is \<^verbatim>\<open>null\<close>, and so in the
  state that disconnect leaves behind whatever the state before it was, each of
  getCollections, getCollectionDetails, getCollectionSchema, queryCollection, addDocument,
  updateDocument and deleteDocument fails with the error \<^verbatim>\<open>Not connected to ChromaDB\<close> and
  attempts no remote call: the world and the record of calls come back unchanged.
\<close>

theorem not_connected_fails:
  assumes "client svc = None \<or> svc = disconnect prior"
  shows "getCollections R clock svc n = (Inl (Error ''Not connected to ChromaDB''), n)
    \<and> getCollectionDetails R clock name svc n = (Inl (Error ''Not connected to ChromaDB''), n)
    \<and> getCollectionSchema R name svc n = (Inl (Error ''Not connected to ChromaDB''), n)
    \<and> queryCollection R name req svc n = (Inl (Error ''Not connected to ChromaDB''), n)
    \<and> addDocument R clock rnd name new svc n = (Inl (Error ''Not connected to ChromaDB''), n)
    \<and> updateDocument R name doc svc n = (Inl (Error ''Not connected to ChromaDB''), n)
    \<and> deleteDocument R name docId svc n = (Inl (Error ''Not connected to ChromaDB''), n)"
proof -
  from assms have "client svc = None"
    by (auto simp: disconnect_def)
  then show ?thesis
    by (simp add: getCollections_def getCollectionDetails_def getCollectionSchema_def
        queryCollection_def addDocument_def updateDocument_def deleteDocument_def
        not_connected_def)
qed

theorem not_connected_fails_witness:
  "getCollections memory_remote (\<lambda>k. 0) (disconnect local_service) (quiet [greeting_row])
     = (Inl (Error ''Not connected to ChromaDB''), quiet [greeting_row])
   \<and> getCollectionSchema memory_remote ''docs'' (disconnect local_service) (quiet [greeting_row])
     = (Inl (Error ''Not connected to ChromaDB''), quiet [greeting_row])
   \<and> addDocument memory_remote (\<lambda>k. 0) ''0.4fzyo82mvyr'' ''docs'' hello_document
        (disconnect local_service) (quiet [greeting_row])
     = (Inl (Error ''Not connected to ChromaDB''), quiet [greeting_row])
   \<and> deleteDocument memory_remote ''docs'' ''doc_1'' (disconnect local_service) (quiet [greeting_row])
     = (Inl (Error ''Not connected to ChromaDB''), quiet [greeting_row])"
proof -
  have d: "client (disconnect local_service) = None \<or> disconnect local_service = disconnect local_service"
    by simp
  show ?thesis
    using not_connected_fails[OF d, where R = memory_remote and clock = "\<lambda>k. 0"
        and n = "quiet [greeting_row]" and name = "''docs''" and docId = "''doc_1''"
        and rnd = "''0.4fzyo82mvyr''" and new = hello_document]
    by blast
qed

section \<open>A connect attempt whose heartbeat fails\<close>

text \<open>
  connect stores the new client in \<^verbatim>\<open>this.client\<close> before it awaits the heartbeat, and its
  \<^verbatim>\<open>catch\<close> block only rethrows. So a failed attempt returns the error with the underlying
  message after one heartbeat call and leaves \<^verbatim>\<open>this.connection\<close> as it was, but the client
  of the failed attempt stays installed.
\<close>

lemma connect_heartbeat_fails:
  assumes "invoke (heartbeat R cl) (Heartbeat cl) n = (Inl e, n1)"
    and "cl = \<lparr>client_host = in_host input, client_port = in_port input, client_ssl = False\<rparr>"
  shows "connect R clock input svc n =
           (Inl (Error (''Failed to connect to ChromaDB: '' @ message_of e)),
            svc\<lparr>client := Some cl\<rparr>, n1)"
  using assms by (simp add: connect_def Let_def)

text \<open>
  C2, evaluated on the target that cannot be reached. From the initial state the attempt
  fails with \<^verbatim>\<open>Failed to connect to ChromaDB: fetch failed\<close> and no connection record is
  stored, but the service, which held no client before, now holds the client of the
  failed attempt: the next getCollections is not refused as not connected and goes to the
  remote. From a connected state the failed attempt leaves the earlier connection record
  in place, so isConnected stays true and getConnection still returns that record.
\<close>

theorem failed_connect_keeps_client:
  "connect unreachable (\<lambda>k. 0) local_input new_service (quiet ())
     = (Inl (Error ''Failed to connect to ChromaDB: fetch failed''),
        \<lparr>client = Some local_client, connection = None\<rparr>,
        \<lparr>world = (), calls = [Heartbeat local_client]\<rparr>)
   \<and> getClient new_service = None
   \<and> getCollections unreachable (\<lambda>k. 0) \<lparr>client = Some local_client, connection = None\<rparr>
         \<lparr>world = (), calls = [Heartbeat local_client]\<rparr>
     = (Inl (Error ''Failed to fetch collections: fetch failed''),
        \<lparr>world = (), calls = [Heartbeat local_client, ListCollections local_client]\<rparr>)
   \<and> isConnected (fst (snd (connect unreachable (\<lambda>k. 0) other_input local_service (quiet ()))))
   \<and> getConnection (fst (snd (connect unreachable (\<lambda>k. 0) other_input local_service (quiet ()))))
     = getConnection local_service"
  by (simp add: connect_def unreachable_def invoke_def quiet_def local_input_def new_service_def
      local_client_def message_of_def getClient_def getCollections_def isConnected_def
      getConnection_def other_input_def local_service_def Let_def)

section \<open>The total shown for pagination\<close>

text \<open>
  C3, as stated, fails on the earlier viewer: a search there over a collection of
  twenty-one documents completes without error and reports a total of 20, the number of
  results on the page, and never asks for the count, which is 21.
\<close>

theorem basic_search_total_is_result_count:
  "totalDocuments (fst (fetchDocuments_basic memory_remote ''docs'' 1 ''hello'' local_service
                          fresh_viewer (quiet many_rows))) = 20
   \<and> shown_error (fst (fetchDocuments_basic memory_remote ''docs'' 1 ''hello'' local_service
                          fresh_viewer (quiet many_rows))) = None
   \<and> count memory_remote docs_collection many_rows = (Inr 21, many_rows)"
  by code_simp

text \<open>
  C3, amended. Once the collection has been found: in the viewer the application mounts,
  for every page, search term, search type and filter list (so in the text, semantic,
  regex, id and metadata modes and in the plain listing), when the page request and the
  count call both return, the total shown is what the count call returned, whatever
  documents the page holds; the plain listing of the earlier viewer does the same; a
  search in the earlier viewer shows as total the number of documents it found.
\<close>

theorem total_documents:
  assumes "getClient svc = Some cl"
    and "invoke (getCollection R cl name) (GetCollection cl name) n = (Inr collection, n1)"
  shows
   "(fetch_page R collection (page_request page search type filters) n1 = (Inr docs, n2)
      \<and> invoke (count R collection) (Count collection) n2 = (Inr cnt, n3) \<longrightarrow>
      fetchDocuments R name page search type filters svc v n =
        (v\<lparr>shown_documents := docs, loading := False, shown_error := None,
           totalDocuments := cnt\<rparr>, n3))
    \<and> (search = []
      \<and> invoke (get R collection (listing_args documentsPerPage ((page - 1) * documentsPerPage)))
           (Get collection (listing_args documentsPerPage ((page - 1) * documentsPerPage))) n1
         = (Inr results, n2)
      \<and> invoke (count R collection) (Count collection) n2 = (Inr cnt, n3) \<longrightarrow>
      fetchDocuments_basic R name page search svc v n =
        (v\<lparr>shown_documents := flat_documents results, loading := False, shown_error := None,
           totalDocuments := cnt\<rparr>, n3))
    \<and> (search \<noteq> []
      \<and> invoke (query R collection (semantic_args search documentsPerPage))
           (Query collection (semantic_args search documentsPerPage)) n1 = (Inr found, n4) \<longrightarrow>
      fetchDocuments_basic R name page search svc v n =
        (v\<lparr>shown_documents := nested_documents_basic found, loading := False, shown_error := None,
           totalDocuments := length (nested_documents_basic found)\<rparr>, n4))"
proof -
  have a: "fetch_page R collection (page_request page search type filters) n1 = (Inr docs, n2)
      \<and> invoke (count R collection) (Count collection) n2 = (Inr cnt, n3) \<longrightarrow>
      fetchDocuments R name page search type filters svc v n =
        (v\<lparr>shown_documents := docs, loading := False, shown_error := None,
           totalDocuments := cnt\<rparr>, n3)"
    using assms by (simp add: fetchDocuments_def Let_def)
  have b: "search = []
      \<and> invoke (get R collection (listing_args documentsPerPage ((page - 1) * documentsPerPage)))
           (Get collection (listing_args documentsPerPage ((page - 1) * documentsPerPage))) n1
         = (Inr results, n2)
      \<and> invoke (count R collection) (Count collection) n2 = (Inr cnt, n3) \<longrightarrow>
      fetchDocuments_basic R name page search svc v n =
        (v\<lparr>shown_documents := flat_documents results, loading := False, shown_error := None,
           totalDocuments := cnt\<rparr>, n3)"
    using assms by (simp add: fetchDocuments_basic_def Let_def)
  have c: "search \<noteq> []
      \<and> invoke (query R collection (semantic_args search documentsPerPage))
           (Query collection (semantic_args search documentsPerPage)) n1 = (Inr found, n4) \<longrightarrow>
      fetchDocuments_basic R name page search svc v n =
        (v\<lparr>shown_documents := nested_documents_basic found, loading := False, shown_error := None,
           totalDocuments := length (nested_documents_basic found)\<rparr>, n4)"
    using assms by (simp add: fetchDocuments_basic_def Let_def)
  from a b c show ?thesis by blast
qed

theorem total_documents_witness:
  "totalDocuments (fst (fetchDocuments memory_remote ''docs'' 1 ''hello'' ''semantic'' [] local_service
                          fresh_viewer (quiet many_rows))) = 21
   \<and> length (shown_documents (fst (fetchDocuments memory_remote ''docs'' 1 ''hello'' ''semantic'' []
                          local_service fresh_viewer (quiet many_rows)))) = 20
   \<and> totalDocuments (fst (fetchDocuments_basic memory_remote ''docs'' 1 [] local_service
                          fresh_viewer (quiet many_rows))) = 21
   \<and> totalDocuments (fst (fetchDocuments_basic memory_remote ''docs'' 1 ''hello'' local_service
                          fresh_viewer (quiet many_rows))) = 20"
proof -
  let ?n1 = "\<lparr>world = many_rows, calls = [GetCollection local_client ''docs'']\<rparr>"
  let ?list = "listing_args documentsPerPage ((1 - 1) * documentsPerPage)"
  let ?sem = "semantic_args ''hello'' documentsPerPage"
  let ?found = "query_response (take 20 many_rows)"
  have len: "length many_rows = 21"
    by (simp add: many_rows_def)
  have c: "getClient local_service = Some local_client"
    by (simp add: getClient_def local_service_def)
  have g: "invoke (getCollection memory_remote local_client ''docs'') (GetCollection local_client ''docs'')
             (quiet many_rows) = (Inr docs_collection, ?n1)"
    by (simp add: invoke_def memory_remote_def quiet_def)
  have s: "invoke (query memory_remote docs_collection ?sem) (Query docs_collection ?sem) ?n1
           = (Inr ?found,
              \<lparr>world = many_rows,
                calls = [GetCollection local_client ''docs'', Query docs_collection ?sem]\<rparr>)"
    by (simp add: invoke_def memory_remote_def semantic_args_def documentsPerPage_def)
  have p: "fetch_page memory_remote docs_collection (page_request 1 ''hello'' ''semantic'' []) ?n1
           = (Inr (nested_documents ?found),
              \<lparr>world = many_rows,
                calls = [GetCollection local_client ''docs'', Query docs_collection ?sem]\<rparr>)"
    using s by (simp add: fetch_page_def page_request_def Let_def)
  have k: "invoke (count memory_remote docs_collection) (Count docs_collection)
             \<lparr>world = many_rows,
               calls = [GetCollection local_client ''docs'', Query docs_collection ?sem]\<rparr>
           = (Inr 21, \<lparr>world = many_rows,
                calls = [GetCollection local_client ''docs'', Query docs_collection ?sem,
                         Count docs_collection]\<rparr>)"
    by (simp add: invoke_def memory_remote_def len)
  have l: "invoke (get memory_remote docs_collection ?list) (Get docs_collection ?list) ?n1
           = (Inr (get_response (select_rows ?list many_rows)),
              \<lparr>world = many_rows,
                calls = [GetCollection local_client ''docs'', Get docs_collection ?list]\<rparr>)"
    by (simp add: invoke_def memory_remote_def)
  have k': "invoke (count memory_remote docs_collection) (Count docs_collection)
             \<lparr>world = many_rows,
               calls = [GetCollection local_client ''docs'', Get docs_collection ?list]\<rparr>
           = (Inr 21, \<lparr>world = many_rows,
                calls = [GetCollection local_client ''docs'', Get docs_collection ?list,
                         Count docs_collection]\<rparr>)"
    by (simp add: invoke_def memory_remote_def len)
  have twenty: "length (nested_documents ?found) = 20"
    "length (nested_documents_basic ?found) = 20"
    by (simp_all add: nested_documents_def nested_documents_basic_def query_response_def
        js_at_def len)
  note t1 = total_documents[OF c g, where page = 1 and search = "''hello''" and type = "''semantic''"
      and filters = "[]" and v = fresh_viewer and found = ?found]
  note t2 = total_documents[OF c g, where page = 1 and search = "[]" and type = "''text''"
      and filters = "[]" and v = fresh_viewer
      and results = "get_response (select_rows ?list many_rows)"]
  have 1: "totalDocuments (fst (fetchDocuments memory_remote ''docs'' 1 ''hello'' ''semantic'' []
             local_service fresh_viewer (quiet many_rows))) = 21"
    using t1 p k by simp
  have 2: "length (shown_documents (fst (fetchDocuments memory_remote ''docs'' 1 ''hello'' ''semantic'' []
             local_service fresh_viewer (quiet many_rows)))) = 20"
    using t1 p k twenty by simp
  have 3: "totalDocuments (fst (fetchDocuments_basic memory_remote ''docs'' 1 [] local_service
             fresh_viewer (quiet many_rows))) = 21"
    using t2 l k' by simp
  have 4: "totalDocuments (fst (fetchDocuments_basic memory_remote ''docs'' 1 ''hello'' local_service
             fresh_viewer (quiet many_rows))) = 20"
    using t1 s twenty by simp
  from 1 2 3 4 show ?thesis by blast
qed

section \<open>Schema inference\<close>

lemma infer_fields_cases:
  "infer_fields results = [] \<or>
   (\<exists>ms md. metadatas results = Some ms \<and> ms \<noteq> [] \<and> ms ! 0 = Some md \<and>
      infer_fields results = map (\<lambda>kv. \<lparr>field_name = fst kv, field_type = typeof (snd kv),
                             nullable = (snd kv = JNull), sample = snd kv\<rparr>) md)"
proof (cases "metadatas results")
  case None
  then show ?thesis by (simp add: infer_fields_def)
next
  case (Some ms)
  show ?thesis
  proof (cases "ms = []")
    case True
    with Some show ?thesis by (simp add: infer_fields_def)
  next
    case False
    show ?thesis
    proof (cases "ms ! 0")
      case None
      with Some False show ?thesis by (simp add: infer_fields_def)
    next
      case (Some md)
      with \<open>metadatas results = Some ms\<close> False show ?thesis
        by (simp add: infer_fields_def case_prod_unfold)
    qed
  qed
qed

text \<open>Every inferred field carries \<^verbatim>\<open>typeof\<close> of its sample value, never \<^verbatim>\<open>"array"\<close>.\<close>

lemma infer_fields_typeof:
  "f \<in> set (infer_fields results) \<Longrightarrow> field_type f = typeof (sample f)"
  using infer_fields_cases[of results] by auto

text \<open>
  C4, evaluated on a collection whose sampled document has an array in its metadata:
  getCollectionSchema reports the field \<^verbatim>\<open>tags\<close> with type \<^verbatim>\<open>"object"\<close>, where the helper
  inferFieldType of the same class, which getCollectionSchema does not call, classifies
  the same value as \<^verbatim>\<open>"array"\<close>.
\<close>

theorem schema_type_of_array:
  "fst (getCollectionSchema memory_remote ''docs'' local_service
          (quiet [(''doc_1'', ''hello world'', [(''tags'', JArr [JStr ''greeting'']), (''lang'', JStr ''en'')])]))
     = Inr \<lparr>schema_name = ''docs'', vectorDimension = 1536, distanceFunction = ''cosine'',
            schema_fields =
              [\<lparr>field_name = ''tags'', field_type = ''object'', nullable = False,
                 sample = JArr [JStr ''greeting'']\<rparr>,
               \<lparr>field_name = ''lang'', field_type = ''string'', nullable = False,
                 sample = JStr ''en''\<rparr>]\<rparr>
   \<and> inferFieldType (JArr [JStr ''greeting'']) = ''array''"
  by (simp add: getCollectionSchema_def memory_remote_def invoke_def quiet_def local_service_def
      docs_collection_def sample_args_def select_rows_def get_response_def infer_fields_def
      inferFieldType_def)

section \<open>The metadata filter\<close>

lemma add_clause_incomplete:
  "filter_field f = [] \<or> filter_value f = [] \<Longrightarrow> add_clause w f = w"
  by (auto simp: add_clause_def)

lemma add_clause_proto:
  "filter_field f = ''__proto__'' \<Longrightarrow> add_clause w f = w"
  by (simp add: add_clause_def set_property_def)

lemma foldl_add_clause_filter:
  "foldl add_clause w filters =
   foldl add_clause w (filter (\<lambda>f. filter_field f \<noteq> [] \<and> filter_value f \<noteq> []) filters)"
proof (induction filters arbitrary: w)
  case Nil
  show ?case by simp
next
  case (Cons f fs)
  show ?case
  proof (cases "filter_field f \<noteq> [] \<and> filter_value f \<noteq> []")
    case True
    then show ?thesis using Cons.IH[of "add_clause w f"] by simp
  next
    case False
    then have "add_clause w f = w" by (auto intro: add_clause_incomplete)
    then show ?thesis using False Cons.IH[of w] by simp
  qed
qed

text \<open>
  C5. A clause whose field or whose value is empty leaves the where object as it was,
  whatever its operator, so the where object built from a list of clauses is the one
  built from its complete clauses alone. The request of the metadata branch carries the
  where object when it has a key and no filter otherwise; with no key the request is
  exactly that of the plain listing of the same page. A clause on the field \<^verbatim>\<open>__proto__\<close>
  adds no key either.
\<close>

theorem incomplete_clauses_dropped:
  "(filter_field f = [] \<or> filter_value f = [] \<longrightarrow> add_clause w f = w)
   \<and> (filter_field f = ''__proto__'' \<longrightarrow> add_clause w f = w)
   \<and> build_where filters =
       build_where (filter (\<lambda>f. filter_field f \<noteq> [] \<and> filter_value f \<noteq> []) filters)
   \<and> (search \<noteq> [] \<longrightarrow>
        page_request page search ''metadata'' filters =
          Inr ((listing_args documentsPerPage ((page - 1) * documentsPerPage))
                 \<lparr>get_where := (if build_where filters = [] then None
                                 else Some (build_where filters))\<rparr>))
   \<and> (build_where filters = [] \<longrightarrow>
        page_request page search ''metadata'' filters =
          Inr (listing_args documentsPerPage ((page - 1) * documentsPerPage)))"
proof -
  have a: "filter_field f = [] \<or> filter_value f = [] \<longrightarrow> add_clause w f = w"
    using add_clause_incomplete by blast
  have b: "build_where filters =
      build_where (filter (\<lambda>f. filter_field f \<noteq> [] \<and> filter_value f \<noteq> []) filters)"
    unfolding build_where_def by (rule foldl_add_clause_filter)
  have c: "search \<noteq> [] \<longrightarrow>
        page_request page search ''metadata'' filters =
          Inr ((listing_args documentsPerPage ((page - 1) * documentsPerPage))
                 \<lparr>get_where := (if build_where filters = [] then None
                                 else Some (build_where filters))\<rparr>)"
    by (auto simp: page_request_def metadata_args_def listing_args_def where_or_undefined_def Let_def)
  have d: "build_where filters = [] \<longrightarrow>
        page_request page search ''metadata'' filters =
          Inr (listing_args documentsPerPage ((page - 1) * documentsPerPage))"
    by (auto simp: page_request_def metadata_args_def listing_args_def where_or_undefined_def Let_def)
  have e: "filter_field f = ''__proto__'' \<longrightarrow> add_clause w f = w"
    using add_clause_proto by blast
  from a b c d e show ?thesis by blast
qed

theorem incomplete_clauses_dropped_witness:
  "add_clause [(''k'', JNull)] blank_filter = [(''k'', JNull)]
   \<and> add_clause [(''k'', JNull)] proto_filter = [(''k'', JNull)]
   \<and> build_where [blank_filter, category_filter, proto_filter,
                    blank_filter\<lparr>filter_field := ''a'', filter_value := []\<rparr>]
       = [(''category'', JObj [(''$contains'', JStr ''greet'')])]
   \<and> page_request 2 ''q'' ''metadata'' [blank_filter, proto_filter] = Inr (listing_args 20 20)"
proof -
  note t = incomplete_clauses_dropped[where f = blank_filter and w = "[(''k'', JNull)]"
      and filters = "[blank_filter, category_filter, proto_filter,
                      blank_filter\<lparr>filter_field := ''a'', filter_value := []\<rparr>]"
      and search = "''q''" and page = 2]
  note p = incomplete_clauses_dropped[where f = proto_filter and w = "[(''k'', JNull)]"
      and filters = "[blank_filter, proto_filter]" and search = "''q''" and page = 2]
  have e: "build_where [proto_filter] = []"
    by (simp add: build_where_def add_clause_def proto_filter_def set_property_def)
  have a: "add_clause [(''k'', JNull)] blank_filter = [(''k'', JNull)]"
    using t by (simp add: blank_filter_def)
  have a': "add_clause [(''k'', JNull)] proto_filter = [(''k'', JNull)]"
    using p by (simp add: proto_filter_def)
  have "build_where [category_filter, proto_filter]
       = [(''category'', JObj [(''$contains'', JStr ''greet'')])]"
    by code_simp
  then have b: "build_where [blank_filter, category_filter, proto_filter,
                    blank_filter\<lparr>filter_field := ''a'', filter_value := []\<rparr>]
       = [(''category'', JObj [(''$contains'', JStr ''greet'')])]"
    using t by (simp add: blank_filter_def category_filter_def proto_filter_def)
  have "build_where [blank_filter, proto_filter] = []"
    using p e by (simp add: blank_filter_def proto_filter_def)
  then have c: "page_request 2 ''q'' ''metadata'' [blank_filter, proto_filter] = Inr (listing_args 20 20)"
    using p by (simp add: documentsPerPage_def listing_args_def)
  from a a' b c show ?thesis by simp
qed

text \<open>The keys of the where object in the order \<^verbatim>\<open>Object.keys\<close> gives them.\<close>

lemma build_where_key_order:
  "build_where [equals_filter ''b'' ''x'', equals_filter ''10'' ''y'', equals_filter ''2'' ''z'',
                equals_filter ''b'' ''w'', equals_filter ''01'' ''v'']
     = [(''2'', JStr ''z''), (''10'', JStr ''y''), (''b'', JStr ''w''), (''01'', JStr ''v'')]"
  by (simp add: build_where_def add_clause_def equals_filter_def set_property_def
      array_index_def read_nat_def digit_value_def)

section \<open>Result normalisation\<close>











section \<open>Adding a document and looking it up\<close>

subsection \<open>The generated id\<close>

text \<open>
  The id \<^verbatim>\<open>doc_<milliseconds>_<suffix>\<close> determines the clock reading it was made from:
  the decimal rendering has digits only, so it ends at the first underscore after
  \<^verbatim>\<open>doc_\<close>, and it can be read back.
\<close>


lemma digit_value_digit: "d < 10 \<Longrightarrow> digit_value (digit d) = d"
proof -
  assume "d < 10"
  then have "d = 0 \<or> d = 1 \<or> d = 2 \<or> d = 3 \<or> d = 4 \<or> d = 5 \<or> d = 6 \<or> d = 7 \<or> d = 8 \<or> d = 9"
    by arith
  then show ?thesis
    by (elim disjE) (simp_all add: digit_def digit_value_def)
qed

lemma digit_is_digit: "d < 10 \<Longrightarrow> digit d \<in> set ''0123456789''"
proof -
  assume "d < 10"
  then have "d = 0 \<or> d = 1 \<or> d = 2 \<or> d = 3 \<or> d = 4 \<or> d = 5 \<or> d = 6 \<or> d = 7 \<or> d = 8 \<or> d = 9"
    by arith
  then show ?thesis
    by (elim disjE) (simp_all add: digit_def)
qed

lemma read_nat_snoc: "read_nat (s @ [c]) = 10 * read_nat s + digit_value c"
  by (simp add: read_nat_def)

lemma read_nat_show_nat: "read_nat (show_nat n) = n"
proof (induction n rule: show_nat.induct)
  case (1 n)
  show ?case
  proof (cases "n < 10")
    case True
    then show ?thesis
      by (subst show_nat.simps) (simp add: read_nat_def digit_value_digit)
  next
    case False
    then have "read_nat (show_nat n) = 10 * read_nat (show_nat (n div 10)) + digit_value (digit (n mod 10))"
      by (subst show_nat.simps) (simp add: read_nat_snoc)
    also have "\<dots> = 10 * (n div 10) + n mod 10"
      using "1.IH"[OF False] by (simp add: digit_value_digit)
    finally show ?thesis by simp
  qed
qed

lemma show_nat_digits: "set (show_nat n) \<subseteq> set ''0123456789''"
proof (induction n rule: show_nat.induct)
  case (1 n)
  show ?case
  proof (cases "n < 10")
    case True
    then show ?thesis
      using digit_is_digit[of n] by (subst show_nat.simps) simp
  next
    case False
    then show ?thesis
      using "1.IH"[OF False] digit_is_digit[of "n mod 10"]
      by (subst show_nat.simps) simp
  qed
qed

lemma underscore_not_in_show_nat: "CHR ''_'' \<notin> set (show_nat n)"
  using show_nat_digits[of n] by auto

lemma takeWhile_upto: "c \<notin> set xs \<Longrightarrow> takeWhile (\<lambda>x. x \<noteq> c) (xs @ c # ys) = xs"
  by (induction xs) auto

lemma new_document_id_time:
  assumes "new_document_id t r = new_document_id t' r'"
  shows "t = t'"
proof -
  from assms have e: "show_nat t @ CHR ''_'' # substr 2 9 r = show_nat t' @ CHR ''_'' # substr 2 9 r'"
    by (simp add: new_document_id_def)
  have "takeWhile (\<lambda>c. c \<noteq> CHR ''_'') (show_nat t @ CHR ''_'' # substr 2 9 r) = show_nat t"
    using underscore_not_in_show_nat[of t] by (rule takeWhile_upto)
  moreover have "takeWhile (\<lambda>c. c \<noteq> CHR ''_'') (show_nat t' @ CHR ''_'' # substr 2 9 r') = show_nat t'"
    using underscore_not_in_show_nat[of t'] by (rule takeWhile_upto)
  ultimately have "show_nat t = show_nat t'" using e by simp
  then have "read_nat (show_nat t) = read_nat (show_nat t')" by simp
  then show ?thesis by (simp add: read_nat_show_nat)
qed


subsection \<open>The round trip\<close>

text \<open>The sample server keeps what is added; its rows are the state of the world itself.\<close>

lemma memory_remote_keeps_rows: "keeps_rows memory_remote ''docs'' (\<lambda>w. w)"
  by (simp add: keeps_rows_def memory_remote_def docs_collection_def)

lemma select_new_row:
  assumes "i \<notin> fst ` set rows0"
  shows "select_rows (id_args i documentsPerPage) (rows0 @ [(i, d, m)]) = [(i, d, m)]"
proof -
  have "filter (\<lambda>r. fst r \<in> set [i]) rows0 = []"
    using assms by (auto simp: filter_empty_conv)
  then show ?thesis
    by (simp add: select_rows_def id_args_def documentsPerPage_def)
qed

lemma flat_documents_row:
  "flat_documents (get_response [(i, d, m)])
     = [\<lparr>doc_id = i, doc_content = d, doc_metadata = Some m, doc_embedding = None\<rparr>]"
  by (simp add: flat_documents_def get_response_def flat_at_def js_at_opt_def or_empty_def
      or_undefined_def)

text \<open>
  C7, as stated, fails when the generated id is already the id of a stored document: the
  sample server ignores the add, addDocument still returns the id, and the lookup for that
  id shows the older document, whose content is not the content that was added.
\<close>

theorem id_collision_shows_other_document:
  "fst (addDocument memory_remote (\<lambda>k. 1730) ''0.4fzyo82mvyr'' ''docs'' hello_document
          local_service (quiet [(''doc_1730_4fzyo82mv'', ''an older text'', [])]))
     = Inr ''doc_1730_4fzyo82mv''
   \<and> new_content hello_document = ''hello world''
   \<and> shown_documents (fst (fetchDocuments memory_remote ''docs'' 1 ''doc_1730_4fzyo82mv'' ''id'' []
        local_service fresh_viewer
        (snd (addDocument memory_remote (\<lambda>k. 1730) ''0.4fzyo82mvyr'' ''docs'' hello_document
                local_service (quiet [(''doc_1730_4fzyo82mv'', ''an older text'', [])])))))
     = [\<lparr>doc_id = ''doc_1730_4fzyo82mv'', doc_content = ''an older text'', doc_metadata = Some [],
          doc_embedding = None\<rparr>]"
  by code_simp

text \<open>
  C7, amended. For a connected service, a remote that keeps what is added to the
  collection, any content and any optional metadata, when the id that addDocument
  generates is not yet the id of a stored document: addDocument returns that id, the
  collection then holds one more row, with that id, the content and the metadata (the
  empty mapping when none was given), and a following search of type \<^verbatim>\<open>id\<close> for the
  returned id shows exactly one document, with that id, that content and that metadata.
  An id generated at any other clock reading is a different id.
\<close>

theorem add_then_get_by_id:
  assumes keeps: "keeps_rows R name rows"
    and cl: "client svc = Some cl"
    and new_id: "new_id = new_document_id (clock 0) random36"
    and fresh: "new_id \<notin> fst ` set (rows (world n))"
    and stored: "stored = (case new_metadata document of None \<Rightarrow> [] | Some m \<Rightarrow> m)"
  shows "(\<exists>n2. addDocument R clock random36 name document svc n = (Inr new_id, n2)
           \<and> rows (world n2) = rows (world n) @ [(new_id, new_content document, stored)]
           \<and> shown_documents (fst (fetchDocuments R name page new_id ''id'' filters svc v n2))
               = [\<lparr>doc_id = new_id, doc_content = new_content document,
                    doc_metadata = Some stored, doc_embedding = None\<rparr>])
         \<and> (\<forall>t r. t \<noteq> clock 0 \<longrightarrow> new_document_id t r \<noteq> new_id)"
proof -
  let ?args = "\<lparr>write_ids = [new_id], write_documents = [new_content document],
                 write_metadatas = [stored]\<rparr>"
  let ?row = "(new_id, new_content document, stored)"
  let ?doc = "\<lparr>doc_id = new_id, doc_content = new_content document,
                doc_metadata = Some stored, doc_embedding = None\<rparr>"
  let ?ga = "id_args new_id documentsPerPage"
  from keeps obtain coll where g1: "fst (getCollection R cl name (world n)) = Inr coll"
    and c1: "rc_name coll = name"
    unfolding keeps_rows_def by blast
  define w1 where "w1 = snd (getCollection R cl name (world n))"
  have r1: "rows w1 = rows (world n)"
    using keeps unfolding keeps_rows_def w1_def by blast
  have G1: "getCollection R cl name (world n) = (Inr coll, w1)"
    using g1 unfolding w1_def by (simp add: prod_eq_iff)
  define w2 where "w2 = snd (add R coll ?args w1)"
  have f1: "new_id \<notin> fst ` set (rows w1)" using fresh r1 by simp
  have a1: "fst (add R coll ?args w1) = Inr ()" and r2: "rows w2 = rows w1 @ [?row]"
    using keeps c1 f1 unfolding keeps_rows_def w2_def by blast+
  have A1: "add R coll ?args w1 = (Inr (), w2)"
    using a1 unfolding w2_def by (simp add: prod_eq_iff)
  define n2 where "n2 = \<lparr>world = w2, calls = calls n @ [GetCollection cl name, Add coll ?args]\<rparr>"
  have added: "addDocument R clock random36 name document svc n = (Inr new_id, n2)"
    using cl G1 A1 new_id stored
    by (simp add: addDocument_def invoke_def Let_def or_empty_object_def n2_def)
  from keeps obtain coll' where g2: "fst (getCollection R cl name w2) = Inr coll'"
    and c2: "rc_name coll' = name"
    unfolding keeps_rows_def by blast
  define w3 where "w3 = snd (getCollection R cl name w2)"
  have r3: "rows w3 = rows (world n) @ [?row]"
    using keeps r2 r1 unfolding keeps_rows_def w3_def by metis
  have G2: "getCollection R cl name w2 = (Inr coll', w3)"
    using g2 unfolding w3_def by (simp add: prod_eq_iff)
  have ga: "get_where ?ga = None \<and> get_whereDocument ?ga = None"
    by (simp add: id_args_def)
  have "fst (get R coll' ?ga w3) = Inr (get_response (select_rows ?ga (rows w3)))"
    using keeps c2 ga unfolding keeps_rows_def by blast
  then have g3: "fst (get R coll' ?ga w3) = Inr (get_response [?row])"
    using select_new_row[OF fresh] r3 by simp
  define w4 where "w4 = snd (get R coll' ?ga w3)"
  have G3: "get R coll' ?ga w3 = (Inr (get_response [?row]), w4)"
    using g3 unfolding w4_def by (simp add: prod_eq_iff)
  have ne: "new_id \<noteq> []"
    using new_id by (simp add: new_document_id_def)
  have rq: "page_request page new_id ''id'' filters = Inr ?ga"
    using ne by (simp add: page_request_def Let_def)
  have shown: "shown_documents (fst (fetchDocuments R name page new_id ''id'' filters svc v n2)) = [?doc]"
    using cl G2 G3
    by (simp add: fetchDocuments_def getClient_def Let_def fetch_failed_def rq fetch_page_def
        invoke_def n2_def flat_documents_row split: prod.splits sum.splits)
  have kept: "rows (world n2) = rows (world n) @ [?row]"
    using r2 r1 by (simp add: n2_def)
  have other: "\<forall>t r. t \<noteq> clock 0 \<longrightarrow> new_document_id t r \<noteq> new_id"
    using new_document_id_time new_id by blast
  from added kept shown other show ?thesis by blast
qed

theorem add_then_get_by_id_witness:
  "(\<exists>n2. addDocument memory_remote (\<lambda>k. 1730) ''0.4fzyo82mvyr'' ''docs'' hello_document local_service
            (quiet [greeting_row]) = (Inr ''doc_1730_4fzyo82mv'', n2)
        \<and> world n2 = [greeting_row, (''doc_1730_4fzyo82mv'', ''hello world'', [])]
        \<and> shown_documents (fst (fetchDocuments memory_remote ''docs'' 1 ''doc_1730_4fzyo82mv'' ''id'' []
             local_service fresh_viewer n2))
          = [\<lparr>doc_id = ''doc_1730_4fzyo82mv'', doc_content = ''hello world'', doc_metadata = Some [],
               doc_embedding = None\<rparr>])
   \<and> new_document_id 1731 ''0.4fzyo82mvyr'' \<noteq> ''doc_1730_4fzyo82mv''"
proof -
  have c: "client local_service = Some local_client"
    by (simp add: local_service_def)
  have i: "''doc_1730_4fzyo82mv'' = new_document_id ((\<lambda>k. 1730) 0) ''0.4fzyo82mvyr''"
    by (simp add: new_document_id_def substr_def show_nat.simps digit_def)
  have f: "''doc_1730_4fzyo82mv'' \<notin> fst ` set ((\<lambda>w. w) (world (quiet [greeting_row])))"
    by (simp add: quiet_def greeting_row_def)
  have m: "[] = (case new_metadata hello_document of None \<Rightarrow> [] | Some m \<Rightarrow> m)"
    by (simp add: hello_document_def)
  note t = add_then_get_by_id[OF memory_remote_keeps_rows c i f m,
      where page = 1 and filters = "[]" and v = fresh_viewer]
  have w: "world (quiet [greeting_row]) = [greeting_row]"
    by (simp add: quiet_def)
  have h: "new_content hello_document = ''hello world''"
    by (simp add: hello_document_def)
  from t have 1: "\<exists>n2. addDocument memory_remote (\<lambda>k. 1730) ''0.4fzyo82mvyr'' ''docs'' hello_document
            local_service (quiet [greeting_row]) = (Inr ''doc_1730_4fzyo82mv'', n2)
        \<and> world n2 = [greeting_row, (''doc_1730_4fzyo82mv'', ''hello world'', [])]
        \<and> shown_documents (fst (fetchDocuments memory_remote ''docs'' 1 ''doc_1730_4fzyo82mv'' ''id'' []
             local_service fresh_viewer n2))
          = [\<lparr>doc_id = ''doc_1730_4fzyo82mv'', doc_content = ''hello world'', doc_metadata = Some [],
               doc_embedding = None\<rparr>]"
    unfolding w h by simp
  from t have 2: "new_document_id 1731 ''0.4fzyo82mvyr'' \<noteq> ''doc_1730_4fzyo82mv''"
    by simp
  from 1 2 show ?thesis by blast
qed

text \<open>
  C8. For a connected service, when the collection is found and the sampled page
  (\<^verbatim>\<open>get({ limit: 1 })\<close>) comes back with no rows, as it does for a collection of zero
  documents, getCollectionSchema returns the schema with an empty field list,
  vectorDimension 1536 and distanceFunction \<^verbatim>\<open>cosine\<close>.
\<close>

theorem empty_collection_schema:
  assumes "client svc = Some cl"
    and "invoke (getCollection R cl name) (GetCollection cl name) n = (Inr collection, n1)"
    and "invoke (get R collection sample_args) (Get collection sample_args) n1 = (Inr results, n2)"
    and "metadatas results = None \<or> metadatas results = Some []"
  shows "getCollectionSchema R name svc n =
           (Inr \<lparr>schema_name = name, vectorDimension = 1536, distanceFunction = ''cosine'',
                 schema_fields = []\<rparr>, n2)"
  using assms by (auto simp: getCollectionSchema_def infer_fields_def)

theorem empty_collection_schema_witness:
  "getCollectionSchema memory_remote ''docs'' local_service (quiet []) =
     (Inr \<lparr>schema_name = ''docs'', vectorDimension = 1536, distanceFunction = ''cosine'',
           schema_fields = []\<rparr>,
      \<lparr>world = [], calls = [GetCollection local_client ''docs'', Get docs_collection sample_args]\<rparr>)"
proof -
  have c: "client local_service = Some local_client"
    by (simp add: local_service_def)
  have g: "invoke (getCollection memory_remote local_client ''docs'') (GetCollection local_client ''docs'')
             (quiet []) = (Inr docs_collection, \<lparr>world = [], calls = [GetCollection local_client ''docs'']\<rparr>)"
    by (simp add: invoke_def memory_remote_def quiet_def)
  have s: "invoke (get memory_remote docs_collection sample_args) (Get docs_collection sample_args)
             \<lparr>world = [], calls = [GetCollection local_client ''docs'']\<rparr>
           = (Inr (get_response []),
              \<lparr>world = [], calls = [GetCollection local_client ''docs'', Get docs_collection sample_args]\<rparr>)"
    by (simp add: invoke_def memory_remote_def select_rows_def sample_args_def)
  have m: "metadatas (get_response []) = None \<or> metadatas (get_response []) = Some []"
    by (simp add: get_response_def)
  show ?thesis by (rule empty_collection_schema[OF c g s m])
qed

section \<open>Properties of the embedding loop\<close>

lemma length_embedding_loop: "length (embedding_loop t i e) = length e"
proof (induction t i e rule: embedding_loop.induct)
  case (1 t i e)
  then show ?case by (subst embedding_loop.simps) simp
qed

lemma embedding_loop_bounded:
  "\<forall>x\<in>set e. x < 1000 \<Longrightarrow> \<forall>x\<in>set (embedding_loop t i e). x < 1000"
proof (induction t i e rule: embedding_loop.induct)
  case (1 t i e)
  show ?case
  proof (cases "i < length t")
    case True
    define v where "v = (e ! (i mod 1536) + charCodeAt t i) mod 1000"
    have v: "v < 1000" unfolding v_def by (rule mod_less_divisor) simp
    have "set (e[i mod 1536 := v]) \<subseteq> insert v (set e)"
      by (rule set_update_subset_insert)
    then have "\<forall>x\<in>set (e[i mod 1536 := v]). x < 1000"
      using "1.prems" v by blast
    then have "\<forall>x\<in>set (embedding_loop t (i + 1) (e[i mod 1536 := v])). x < 1000"
      unfolding v_def by (rule "1.IH"[OF True])
    moreover have "embedding_loop t i e = embedding_loop t (i + 1) (e[i mod 1536 := v])"
      unfolding v_def using True by (subst embedding_loop.simps) (simp only: if_True)
    ultimately show ?thesis by (simp only:)
  next
    case False
    then have "embedding_loop t i e = e" by (subst embedding_loop.simps) (simp only: if_False)
    with "1.prems" show ?thesis by (simp only:)
  qed
qed

lemma embedding_loop_snoc:
  "i \<le> length t \<Longrightarrow>
   embedding_loop (t @ [c]) i e =
     (embedding_loop t i e)[length t mod 1536 :=
        (embedding_loop t i e ! (length t mod 1536) + unat c) mod 1000]"
proof (induction t i e rule: embedding_loop.induct)
  case (1 t i e)
  show ?case
  proof (cases "i < length t")
    case True
    let ?e = "e[i mod 1536 := (e ! (i mod 1536) + charCodeAt t i) mod 1000]"
    have c: "charCodeAt (t @ [c]) i = charCodeAt t i"
      using True by (simp add: charCodeAt_def nth_append)
    have "embedding_loop (t @ [c]) i e = embedding_loop (t @ [c]) (i + 1) ?e"
      using True by (subst embedding_loop.simps) (simp add: c)
    also have "\<dots> = (embedding_loop t (i + 1) ?e)
          [length t mod 1536 := (embedding_loop t (i + 1) ?e ! (length t mod 1536) + unat c) mod 1000]"
      using "1.IH"[OF True] True by simp
    also have "embedding_loop t (i + 1) ?e = embedding_loop t i e"
      using True by (subst (2) embedding_loop.simps) simp
    finally show ?thesis .
  next
    case False
    with "1.prems" have eq: "i = length t" by simp
    have a: "embedding_loop t (length t) e = e" by (subst embedding_loop.simps) simp
    have b: "embedding_loop (t @ [c]) (Suc (length t)) e' = e'" for e'
      by (subst embedding_loop.simps) simp
    have "embedding_loop (t @ [c]) (length t) e =
          e[length t mod 1536 := (e ! (length t mod 1536) + charCodeAt (t @ [c]) (length t)) mod 1000]"
      by (subst embedding_loop.simps) (simp add: b)
    then show ?thesis unfolding eq a by (simp add: charCodeAt_def)
  qed
qed

lemma embed_Nil: "embed [] = replicate 1536 0"
  unfolding embed_def by (subst embedding_loop.simps) simp

lemma length_embed: "length (embed t) = 1536"
  unfolding embed_def by (simp add: length_embedding_loop)

lemma embed_bounded: "\<forall>x\<in>set (embed t). x < 1000"
  unfolding embed_def by (rule embedding_loop_bounded) simp

lemma embed_snoc:
  "embed (t @ [c]) =
     (embed t)[length t mod 1536 := (embed t ! (length t mod 1536) + charCodeAt (t @ [c]) (length t)) mod 1000]"
  unfolding embed_def by (simp add: embedding_loop_snoc charCodeAt_def)

text \<open>
  C9. The placeholder embedding function returns exactly one vector per input text, in
  order; every vector has length 1536; the vector of the empty text is all zeros, and
  reading one more character \<open>c\<close> at index \<open>i = length t\<close> replaces the entry at
  \<open>i mod 1536\<close> by (previous entry + character code) mod 1000 and changes nothing else;
  consequently every entry is a natural number below 1000.
\<close>

theorem generate_embedding:
  "length (generate texts) = length texts
   \<and> (\<forall>k<length texts. generate texts ! k = embed (texts ! k))
   \<and> (\<forall>v\<in>set (generate texts). length v = 1536 \<and> (\<forall>x\<in>set v. x < 1000))
   \<and> embed [] = replicate 1536 0
   \<and> embed (t @ [c]) =
       (embed t)[length t mod 1536 :=
          (embed t ! (length t mod 1536) + charCodeAt (t @ [c]) (length t)) mod 1000]"
proof -
  have "\<forall>v\<in>set (generate texts). length v = 1536 \<and> (\<forall>x\<in>set v. x < 1000)"
    unfolding generate_def using length_embed embed_bounded by auto
  then show ?thesis
    using embed_Nil embed_snoc[of t c] by (simp add: generate_def)
qed

theorem generate_embedding_witness:
  "length (generate [[104, 105]]) = 1
   \<and> generate [[104, 105]] ! 0 = embed [104, 105]
   \<and> length (generate [[104, 105]] ! 0) = 1536
   \<and> generate [[104, 105]] ! 0 ! 7 < 1000
   \<and> embed [104, 105] = (embed [104])[1 := (embed [104] ! 1 + 105) mod 1000]"
proof -
  note g = generate_embedding[of "[[104, 105]]" "[104]" 105]
  have a: "length (generate [[104, 105]]) = 1" using g by simp
  have b: "generate [[104, 105]] ! 0 = embed [104, 105]" using g by simp
  have m: "generate [[104, 105]] ! 0 \<in> set (generate [[104, 105]])"
    using a by (simp add: generate_def)
  have c: "length (generate [[104, 105]] ! 0) = 1536" using g m by blast
  have "generate [[104, 105]] ! 0 ! 7 \<in> set (generate [[104, 105]] ! 0)"
    by (rule nth_mem) (simp add: c)
  then have d: "generate [[104, 105]] ! 0 ! 7 < 1000" using g m by blast
  have e: "embed [104, 105] = (embed [104])[1 := (embed [104] ! 1 + 105) mod 1000]"
    using g by (simp add: charCodeAt_def)
  show ?thesis using a b c d e by simp
qed

section \<open>Listing collections\<close>

text \<open>
  C10. For a connected service, getCollections makes the one remote call listCollections
  and no count call; when that call returns, it returns one Collection per listed
  collection, under the same names and in the same order, each with document count 0,
  however many documents the collection holds. getCollectionDetails is the operation that
  asks the remote for the count and returns it in the count field.
\<close>

theorem listed_count_is_zero:
  assumes "client svc = Some cl"
  shows "calls (snd (getCollections R clock svc n)) = calls n @ [ListCollections cl]
    \<and> (invoke (listCollections R cl) (ListCollections cl) n = (Inr collections, n1) \<longrightarrow>
         (\<exists>listed. getCollections R clock svc n = (Inr listed, n1)
            \<and> map col_name listed = map rc_name collections
            \<and> (\<forall>c\<in>set listed. col_count c = 0)))
    \<and> (invoke (getCollection R cl name) (GetCollection cl name) n = (Inr collection, n2)
         \<and> invoke (count R collection) (Count collection) n2 = (Inr cnt, n3) \<longrightarrow>
         (\<exists>c. getCollectionDetails R clock name svc n = (Inr c, n3) \<and> col_count c = cnt))"
proof -
  have a: "calls (snd (getCollections R clock svc n)) = calls n @ [ListCollections cl]"
    using assms by (simp add: getCollections_def invoke_def split: prod.splits sum.splits)
  have b: "invoke (listCollections R cl) (ListCollections cl) n = (Inr collections, n1) \<longrightarrow>
         (\<exists>listed. getCollections R clock svc n = (Inr listed, n1)
            \<and> map col_name listed = map rc_name collections
            \<and> (\<forall>c\<in>set listed. col_count c = 0))"
  proof
    assume l: "invoke (listCollections R cl) (ListCollections cl) n = (Inr collections, n1)"
    have "map (\<lambda>x. rc_name (snd x)) (enumerate 0 collections) = map rc_name collections"
      by (simp flip: map_map[unfolded comp_def])
    then show "\<exists>listed. getCollections R clock svc n = (Inr listed, n1)
            \<and> map col_name listed = map rc_name collections
            \<and> (\<forall>c\<in>set listed. col_count c = 0)"
      using assms l by (auto simp: getCollections_def case_prod_unfold comp_def)
  qed
  have c: "invoke (getCollection R cl name) (GetCollection cl name) n = (Inr collection, n2)
         \<and> invoke (count R collection) (Count collection) n2 = (Inr cnt, n3) \<longrightarrow>
         (\<exists>c. getCollectionDetails R clock name svc n = (Inr c, n3) \<and> col_count c = cnt)"
    using assms by (auto simp: getCollectionDetails_def)
  from a b c show ?thesis by blast
qed

theorem listed_count_is_zero_witness:
  "calls (snd (getCollections memory_remote (\<lambda>k. 7) local_service (quiet [greeting_row])))
     = [ListCollections local_client]
   \<and> (\<exists>listed. getCollections memory_remote (\<lambda>k. 7) local_service (quiet [greeting_row])
          = (Inr listed, \<lparr>world = [greeting_row], calls = [ListCollections local_client]\<rparr>)
        \<and> map col_name listed = [''docs'']
        \<and> (\<forall>c\<in>set listed. col_count c = 0))
   \<and> (\<exists>c. getCollectionDetails memory_remote (\<lambda>k. 7) ''docs'' local_service (quiet [greeting_row])
          = (Inr c, \<lparr>world = [greeting_row],
                      calls = [GetCollection local_client ''docs'', Count docs_collection]\<rparr>)
        \<and> col_count c = 1)"
proof -
  have c: "client local_service = Some local_client"
    by (simp add: local_service_def)
  have l: "invoke (listCollections memory_remote local_client) (ListCollections local_client)
             (quiet [greeting_row])
           = (Inr [docs_collection], \<lparr>world = [greeting_row], calls = [ListCollections local_client]\<rparr>)"
    by (simp add: invoke_def memory_remote_def quiet_def)
  have g: "invoke (getCollection memory_remote local_client ''docs'') (GetCollection local_client ''docs'')
             (quiet [greeting_row])
           = (Inr docs_collection, \<lparr>world = [greeting_row], calls = [GetCollection local_client ''docs'']\<rparr>)"
    by (simp add: invoke_def memory_remote_def quiet_def)
  have k: "invoke (count memory_remote docs_collection) (Count docs_collection)
             \<lparr>world = [greeting_row], calls = [GetCollection local_client ''docs'']\<rparr>
           = (Inr 1, \<lparr>world = [greeting_row],
                       calls = [GetCollection local_client ''docs'', Count docs_collection]\<rparr>)"
    by (simp add: invoke_def memory_remote_def)
  have q: "calls (quiet [greeting_row]) @ [ListCollections local_client] = [ListCollections local_client]"
    by (simp add: quiet_def)
  have r: "map rc_name [docs_collection] = [''docs'']"
    by (simp add: docs_collection_def)
  show ?thesis
    using listed_count_is_zero[OF c, of memory_remote "\<lambda>k. 7" "quiet [greeting_row]"
        "[docs_collection]" _ "''docs''" docs_collection _ 1 _] l g k
    unfolding q r by blast
qed

end
